(* ===== verification/Prelude.thy ===== *)
theory Prelude
  imports Main "HOL-Library.Word" "HOL-Library.Sublist"
begin

text \<open>
  Shared vocabulary of the development: the type names of the model, the named
  collections of rules that the component theories feed, and the generic facts on
  lists, options and sums that several components use. Nothing here is specific to
  the image store of \<^verbatim>\<open>src/src/store/images.ts\<close>.
\<close>

section \<open>Types of the model\<close>

text \<open>
  A JavaScript string is a sequence of UTF-16 code units; the identifiers, messages and
  URLs the store handles are ASCII, so a HOL \<^typ>\<open>string\<close> represents them one unit per
  character. \<open>response.status\<close> is a WebIDL \<^verbatim>\<open>unsigned short\<close>, a 16-bit word.
\<close>

type_synonym js_string = string
type_synonym u16 = "16 word"

section \<open>Rule collections\<close>

named_theorems model_eval
  "definitions unfolded to evaluate the model on concrete inputs (closed terms only)"
named_theorems inv_step
  "one-step preservation lemmas of the runtime invariants"

section \<open>Lists\<close>

text \<open>
  Two lists related element-wise by \<open>R\<close>, and two predicates that agree on related
  elements: the first elements satisfying them are related too. This is the shape of
  every refinement of a lookup in the development.
\<close>

lemma find_rel_option:
  assumes "list_all2 R xs ys"
    and "\<And>x y. R x y \<Longrightarrow> P x \<longleftrightarrow> Q y"
  shows "rel_option R (find P xs) (find Q ys)"
  using assms(1)
proof (induction xs ys rule: list_all2_induct)
  case Nil
  then show ?case by simp
next
  case (Cons x xs y ys)
  then show ?case using assms(2) by auto
qed

lemma list_all2_set1_ex:
  "list_all2 P xs ys \<Longrightarrow> x \<in> set xs \<Longrightarrow> \<exists>y \<in> set ys. P x y"
  by (induction xs ys rule: list_all2_induct) auto

end
