(* ===== verification/Js_Value.thy ===== *)
theory Js_Value
  imports Prelude
begin

text \<open>
  The part of the JavaScript runtime the store touches: the values that
  \<open>response.json()\<close> produces (JSON documents), the values a \<open>throw\<close> carries, reading
  the property \<open>id\<close> of a value, strict equality against a string, and
  \<open>Array.prototype.find\<close> with a callback that may throw. These are the semantics of
  the platform, not code of the repository; \<^verbatim>\<open>Image_Store\<close> composes them the way
  \<^verbatim>\<open>images.ts\<close> does.
\<close>

section \<open>JSON values\<close>

text \<open>
  \<open>response.json()\<close> parses the body with \<open>JSON.parse\<close>. The result is untyped at
  run time: the annotation \<open>PicsumImage[]\<close> of \<^verbatim>\<open>images.ts\<close> line 21 is erased by
  the TypeScript compiler. An object keeps its members in source order, duplicates
  included; \<open>JSON.parse\<close> lets the last duplicate win. Numbers are modelled as
  integers, which is what the upstream list endpoint sends.
\<close>

datatype json =
    JNull
  | JBool bool
  | JNum int
  | JStr js_string
  | JArr "json list"
  | JObj "(js_string \<times> json) list"

text \<open>
  A thrown value: an instance of \<open>Error\<close> (its constructor name and its \<open>message\<close>),
  or any other value, which JavaScript may throw as well.
\<close>

datatype thrown =
    Exn_Error js_string js_string
  | Exn_Value json

fun is_error_instance :: "thrown \<Rightarrow> bool" where
  "is_error_instance (Exn_Error _ _) = True"
| "is_error_instance (Exn_Value _) = False"

definition type_error :: "js_string \<Rightarrow> thrown" where
  "type_error msg = Exn_Error ''TypeError'' msg"

section \<open>Reading a property, strict equality\<close>

text \<open>
  \<open>v.id\<close>: on \<open>null\<close> a \<open>TypeError\<close>; on an object the last member named \<open>id\<close>,
  or \<open>undefined\<close> (\<^term>\<open>None\<close>) when there is none; booleans, numbers, strings and
  arrays have no property \<open>id\<close>, neither own nor inherited, so \<open>undefined\<close>.
\<close>

fun get_id :: "json \<Rightarrow> thrown + json option" where
  "get_id JNull = Inl (type_error ''Cannot read properties of null (reading id)'')"
| "get_id (JObj members) = Inr (map_of (rev members) ''id'')"
| "get_id (JBool _) = Inr None"
| "get_id (JNum _) = Inr None"
| "get_id (JStr _) = Inr None"
| "get_id (JArr _) = Inr None"

text \<open>
  \<open>v === s\<close> for a string \<open>s\<close>: true exactly when \<open>v\<close> is a string with the same
  code units; \<open>undefined\<close> and values of any other type are never strictly equal to
  a string.
\<close>

fun strict_eq_str :: "json option \<Rightarrow> js_string \<Rightarrow> bool" where
  "strict_eq_str (Some (JStr s)) t = (s = t)"
| "strict_eq_str _ t = False"

lemma strict_eq_str_iff [simp]: "strict_eq_str v t \<longleftrightarrow> v = Some (JStr t)"
  by (cases "(v, t)" rule: strict_eq_str.cases) auto

section \<open>Array.prototype.find\<close>

text \<open>
  \<open>arr.find(cb)\<close> calls \<open>cb\<close> on the elements from index 0 on and returns the first
  element for which it returns a truthy value, \<open>undefined\<close> if there is none; an
  exception thrown by \<open>cb\<close> leaves \<open>find\<close> at once.
\<close>

fun js_find :: "(json \<Rightarrow> thrown + bool) \<Rightarrow> json list \<Rightarrow> thrown + json option" where
  "js_find cb [] = Inr None"
| "js_find cb (x # xs) =
     (case cb x of
        Inl e \<Rightarrow> Inl e
      | Inr b \<Rightarrow> (if b then Inr (Some x) else js_find cb xs))"

lemma js_find_pure:
  "\<forall>x \<in> set xs. cb x = Inr (P x) \<Longrightarrow> js_find cb xs = Inr (find P xs)"
  by (induction xs) auto

lemma js_find_skip:
  "\<forall>y \<in> set ys. cb y = Inr False \<Longrightarrow> js_find cb (ys @ xs) = js_find cb xs"
  by (induction ys) auto

end
