(* ===== verification/Http_Message.thy ===== *)
theory Http_Message
  imports Js_Value
begin

text \<open>
  The HTTP side of \<open>fetchImages\<close>: the \<open>ok\<close> flag of a response, the decimal text
  of a status that the template literal of \<^verbatim>\<open>images.ts\<close> line 18 embeds, and the
  message of the \<open>Error\<close> thrown there. A parser of that message back to the status
  is the inverse the round-trip lemmas are stated with: the status a consumer reads
  from the store's \<open>error\<close> field is the one the server sent.
\<close>

section \<open>Status and message\<close>

text \<open>
  \<open>response.ok\<close> is true exactly for the status range 200 to 299 (Fetch standard,
  "ok status").
\<close>

definition response_ok :: "u16 \<Rightarrow> bool" where
  "response_ok st \<longleftrightarrow> 200 \<le> unat st \<and> unat st \<le> 299"

text \<open>
  \<open>${response.status}\<close> converts the number with \<open>Number.prototype.toString\<close>; on a
  non-negative integer that is its decimal digits, most significant first, with no
  leading zero.
\<close>

definition digit_char :: "nat \<Rightarrow> char" where
  "digit_char d = char_of (48 + d)"

fun decimal :: "nat \<Rightarrow> js_string" where
  "decimal n = (if n < 10 then [digit_char n] else decimal (n div 10) @ [digit_char (n mod 10)])"

declare decimal.simps [simp del]

lemmas decimal_eval = decimal.simps digit_char_def char_of_eq_iff

definition http_error_prefix :: js_string where
  "http_error_prefix = ''HTTP error! status: ''"

definition http_error_message :: "u16 \<Rightarrow> js_string" where
  "http_error_message st = http_error_prefix @ decimal (unat st)"

section \<open>Reading a status back\<close>

definition is_digit :: "char \<Rightarrow> bool" where
  "is_digit c \<longleftrightarrow> 48 \<le> (of_char c :: nat) \<and> (of_char c :: nat) \<le> 57"

definition digit_value :: "char \<Rightarrow> nat" where
  "digit_value c = of_char c - 48"

definition digits_value :: "js_string \<Rightarrow> nat" where
  "digits_value cs = foldl (\<lambda>a c. 10 * a + digit_value c) 0 cs"

definition parse_decimal :: "js_string \<Rightarrow> nat option" where
  "parse_decimal cs =
     (if cs \<noteq> [] \<and> list_all is_digit cs then Some (digits_value cs) else None)"

definition status_of_message :: "js_string \<Rightarrow> u16 option" where
  "status_of_message m =
     (if prefix http_error_prefix m
      then (case parse_decimal (drop (length http_error_prefix) m) of
              None \<Rightarrow> None
            | Some n \<Rightarrow> if n < 2 ^ LENGTH(16) then Some (of_nat n) else None)
      else None)"

section \<open>Digits\<close>

lemma digit_char_value [simp]: "d < 10 \<Longrightarrow> digit_value (digit_char d) = d"
  by (simp add: digit_char_def digit_value_def)

lemma digit_char_is_digit [simp]: "d < 10 \<Longrightarrow> is_digit (digit_char d)"
  by (simp add: digit_char_def is_digit_def)

lemma decimal_snoc:
  "10 \<le> n \<Longrightarrow> decimal n = decimal (n div 10) @ [digit_char (n mod 10)]"
  by (subst decimal.simps) simp

lemma decimal_small: "n < 10 \<Longrightarrow> decimal n = [digit_char n]"
  by (subst decimal.simps) simp

lemma decimal_not_Nil [simp]: "decimal n \<noteq> []"
  by (cases "n < 10") (simp_all add: decimal_small decimal_snoc)

lemma decimal_digits: "list_all is_digit (decimal n)"
proof (induction n rule: decimal.induct)
  case (1 n)
  then show ?case
    by (cases "n < 10") (simp_all add: decimal_small decimal_snoc)
qed

lemma digits_value_decimal: "digits_value (decimal n) = n"
proof (induction n rule: decimal.induct)
  case (1 n)
  show ?case
  proof (cases "n < 10")
    case True
    then show ?thesis by (simp add: decimal_small digits_value_def)
  next
    case False
    with "1.IH" have "digits_value (decimal (n div 10)) = n div 10" by simp
    with False show ?thesis by (simp add: decimal_snoc digits_value_def)
  qed
qed

lemma parse_decimal_decimal: "parse_decimal (decimal n) = Some n"
  by (simp add: parse_decimal_def decimal_digits digits_value_decimal)

text \<open>The number of digits: at most \<open>k\<close> below \<open>10 ^ k\<close>.\<close>

lemma length_decimal_bound: "n < 10 ^ k \<Longrightarrow> 0 < k \<Longrightarrow> length (decimal n) \<le> k"
proof (induction n arbitrary: k rule: decimal.induct)
  case (1 n)
  show ?case
  proof (cases "n < 10")
    case True
    with "1.prems" show ?thesis by (simp add: decimal_small)
  next
    case False
    have "\<not> k \<le> 1"
    proof
      assume "k \<le> 1"
      then have "(10::nat) ^ k \<le> 10 ^ 1" by (rule power_increasing) simp
      with False "1.prems"(1) show False by simp
    qed
    then obtain k' where k: "k = Suc k'" and "0 < k'" by (cases k) auto
    with "1.prems" have "n div 10 < 10 ^ k'" by (simp add: div_less_iff_less_mult mult.commute)
    with "1.IH" False \<open>0 < k'\<close> have "length (decimal (n div 10)) \<le> k'" by simp
    with False k show ?thesis by (simp add: decimal_snoc)
  qed
qed

lemma unat_u16_bound: "unat (st :: u16) < 65536"
  using unsigned_less [of st] by simp

lemma length_http_error_prefix [simp]: "length http_error_prefix = 20"
  by (simp add: http_error_prefix_def)

text \<open>Reading the status back from the message of line 18 gives the status.\<close>

lemma status_of_http_error_message: "status_of_message (http_error_message st) = Some st"
proof -
  have "drop (length http_error_prefix) (http_error_message st) = decimal (unat st)"
    by (simp add: http_error_message_def)
  moreover have "prefix http_error_prefix (http_error_message st)"
    by (simp add: http_error_message_def)
  moreover have "unat st < 2 ^ LENGTH(16)"
    using unat_u16_bound [of st] by simp
  ultimately show ?thesis
    by (simp add: status_of_message_def parse_decimal_decimal)
qed

section \<open>Bounds\<close>

text \<open>
  C18. The message of line 18 is 21 to 25 characters long: the 20 characters of
  \<open>HTTP error! status: \<close> and the one to five digits of a 16-bit status.
\<close>

theorem http_error_message_length:
  "21 \<le> length (http_error_message st) \<and> length (http_error_message st) \<le> 25"
proof -
  have "unat st < 10 ^ 5" using unat_u16_bound [of st] by simp
  then have "length (decimal (unat st)) \<le> 5" by (rule length_decimal_bound) simp
  moreover have "1 \<le> length (decimal (unat st))" by (simp add: Suc_le_eq)
  ultimately show ?thesis by (simp add: http_error_message_def)
qed

end
