(* ===== verification/Image_Store.thy ===== *)
theory Image_Store
  imports Http_Message
begin

text \<open>
  The store of \<^verbatim>\<open>src/src/store/images.ts\<close>: its three reactive fields, the handler
  \<open>fetchImages\<close> cut at its two \<open>await\<close>s into the pieces the asynchronous runtime
  (\<^verbatim>\<open>Async_Runtime\<close>) schedules, the handler run to completion without interleaving,
  and the lookup \<open>getImageById\<close>. The environment's answers (what \<open>fetch\<close> and
  \<open>response.json()\<close> settle with) are parameters, so every lemma holds for every
  answer the network may give.
\<close>

section \<open>State\<close>

text \<open>
  \<open>images\<close>, \<open>loading\<close> and \<open>error\<close> are the three \<open>ref\<close>s of lines 6 to 8.
  \<open>images\<close> holds a JSON value, not a typed list: line 22 stores whatever
  \<open>response.json()\<close> returned.
\<close>

record store =
  images :: json
  loading :: bool
  error :: "js_string option"

definition init_store :: store where
  "init_store = \<lparr>images = JArr [], loading = False, error = None\<rparr>"

text \<open>What the environment settles the two awaited promises with.\<close>

datatype fetch_outcome =
    Network_Failure thrown
  | Got_Response u16

datatype body_outcome =
    Body_Parsed json
  | Body_Failure thrown

text \<open>A line written to \<open>console.error\<close>: the fixed text and the thrown value.\<close>

type_synonym log_entry = "js_string \<times> thrown"

section \<open>fetchImages, piece by piece\<close>

text \<open>Lines 11 and 12, run synchronously when the handler is called.\<close>

definition fetch_start :: "store \<Rightarrow> store" where
  "fetch_start s = s\<lparr>loading := True, error := None\<rparr>"

text \<open>
  Lines 15 to 19, run when \<open>fetch\<close> settles: a rejection is rethrown by \<open>await\<close>;
  a response whose \<open>ok\<close> is false throws a fresh \<open>Error\<close>; otherwise the handler
  goes on to \<open>await response.json()\<close> (\<^term>\<open>Inr ()\<close>).
\<close>

fun after_fetch :: "fetch_outcome \<Rightarrow> thrown + unit" where
  "after_fetch (Network_Failure err) = Inl err"
| "after_fetch (Got_Response st) =
     (if \<not> response_ok st then Inl (Exn_Error ''Error'' (http_error_message st)) else Inr ())"

text \<open>Line 21, run when \<open>response.json()\<close> settles.\<close>

fun after_body :: "body_outcome \<Rightarrow> thrown + json" where
  "after_body (Body_Parsed data) = Inr data"
| "after_body (Body_Failure err) = Inl err"

text \<open>The whole \<open>try\<close> block, lines 14 to 22, as a value: the data or the exception.\<close>

definition try_block :: "fetch_outcome \<Rightarrow> body_outcome \<Rightarrow> thrown + json" where
  "try_block fo bo = (case after_fetch fo of Inl err \<Rightarrow> Inl err | Inr _ \<Rightarrow> after_body bo)"

text \<open>Line 24: the text stored in \<open>error\<close> for a caught value.\<close>

fun error_text :: "thrown \<Rightarrow> js_string" where
  "error_text (Exn_Error _ msg) = msg"
| "error_text (Exn_Value _) = ''Failed to fetch images''"

text \<open>
  Lines 22 to 28 once the \<open>try\<close> block has its result: the assignment of line 22 or
  the \<open>catch\<close> of line 24, then the \<open>finally\<close> of line 27; and what line 25 logs.
\<close>

definition settle :: "store \<Rightarrow> thrown + json \<Rightarrow> store" where
  "settle s r =
     (case r of
        Inr data \<Rightarrow> s\<lparr>images := data\<rparr>
      | Inl err \<Rightarrow> s\<lparr>error := Some (error_text err)\<rparr>)\<lparr>loading := False\<rparr>"

definition settle_log :: "thrown + json \<Rightarrow> log_entry list" where
  "settle_log r = (case r of Inr _ \<Rightarrow> [] | Inl err \<Rightarrow> [(''Error fetching images:'', err)])"

text \<open>
  The handler run to completion with no other call in between: lines 10 to 29 as one
  function of the store and the two answers; the second answer is not read when the
  first already failed.
\<close>

definition fetch_images :: "store \<Rightarrow> fetch_outcome \<Rightarrow> body_outcome \<Rightarrow> store \<times> log_entry list" where
  "fetch_images s fo bo = (let r = try_block fo bo in (settle (fetch_start s) r, settle_log r))"

section \<open>getImageById\<close>

text \<open>The arrow function of line 32: \<open>image.id === id\<close>, which throws on \<open>null\<close>.\<close>

definition image_has_id :: "js_string \<Rightarrow> json \<Rightarrow> thrown + bool" where
  "image_has_id i img =
     (case get_id img of Inl err \<Rightarrow> Inl err | Inr v \<Rightarrow> Inr (strict_eq_str v i))"

text \<open>
  \<open>images.value.find(cb)\<close>: an array runs \<open>Array.prototype.find\<close>; \<open>null\<close> has no
  properties; every other JSON value has no method \<open>find\<close>.
\<close>

fun images_find :: "json \<Rightarrow> (json \<Rightarrow> thrown + bool) \<Rightarrow> thrown + json option" where
  "images_find (JArr xs) cb = js_find cb xs"
| "images_find JNull cb = Inl (type_error ''Cannot read properties of null (reading find)'')"
| "images_find (JBool _) cb = Inl (type_error ''images.value.find is not a function'')"
| "images_find (JNum _) cb = Inl (type_error ''images.value.find is not a function'')"
| "images_find (JStr _) cb = Inl (type_error ''images.value.find is not a function'')"
| "images_find (JObj _) cb = Inl (type_error ''images.value.find is not a function'')"

definition get_image_by_id :: "store \<Rightarrow> js_string \<Rightarrow> thrown + json option" where
  "get_image_by_id s i = images_find (images s) (image_has_id i)"

declare init_store_def [model_eval] fetch_start_def [model_eval] response_ok_def [model_eval]
  http_error_message_def [model_eval] http_error_prefix_def [model_eval]

section \<open>The pieces, case by case\<close>

lemma try_block_Network_Failure [simp]: "try_block (Network_Failure err) bo = Inl err"
  by (simp add: try_block_def)

lemma try_block_not_ok [simp]:
  "\<not> response_ok st \<Longrightarrow> try_block (Got_Response st) bo = Inl (Exn_Error ''Error'' (http_error_message st))"
  by (simp add: try_block_def)

lemma try_block_ok [simp]:
  "response_ok st \<Longrightarrow> try_block (Got_Response st) bo = after_body bo"
  by (simp add: try_block_def)

lemma settle_Inr [simp]:
  "settle s (Inr data) = s\<lparr>images := data, loading := False\<rparr>"
  by (simp add: settle_def)

lemma settle_Inl [simp]:
  "settle s (Inl err) = s\<lparr>error := Some (error_text err), loading := False\<rparr>"
  by (simp add: settle_def)

lemma settle_log_Inr [simp]: "settle_log (Inr data) = []"
  by (simp add: settle_log_def)

lemma settle_log_Inl [simp]: "settle_log (Inl err) = [(''Error fetching images:'', err)]"
  by (simp add: settle_log_def)

lemma settle_loading [simp]: "loading (settle s r) = False"
  by (cases r) simp_all

lemma fetch_start_fields [simp]:
  "images (fetch_start s) = images s" "loading (fetch_start s) = True" "error (fetch_start s) = None"
  by (simp_all add: fetch_start_def)

lemma fetch_images_eq:
  "fetch_images s fo bo = (settle (fetch_start s) (try_block fo bo), settle_log (try_block fo bo))"
  by (simp add: fetch_images_def Let_def)

text \<open>The result of the handler depends on the store only through its \<open>images\<close>.\<close>

lemma settle_fetch_start_images:
  "images s = images s' \<Longrightarrow> settle (fetch_start s) r = settle (fetch_start s') r"
  by (cases r) (simp_all add: fetch_start_def)

section \<open>The lookup, case by case\<close>

lemma image_has_id_not_null:
  "x \<noteq> JNull \<Longrightarrow> image_has_id i x = Inr (get_id x = Inr (Some (JStr i)))"
  by (cases x) (auto simp: image_has_id_def split: option.splits json.splits)

lemma image_has_id_null: "image_has_id i JNull = Inl (type_error ''Cannot read properties of null (reading id)'')"
  by (simp add: image_has_id_def)

lemma fetch_images_log_Inl:
  "try_block fo bo = Inl err \<Longrightarrow>
     fetch_images s fo bo = (s\<lparr>loading := False, error := Some (error_text err)\<rparr>, [(''Error fetching images:'', err)])"
  by (simp add: fetch_images_eq fetch_start_def)

lemma get_image_by_id_array:
  "images s = JArr xs \<Longrightarrow> get_image_by_id s i = js_find (image_has_id i) xs"
  by (simp add: get_image_by_id_def)

lemma get_image_by_id_pure:
  assumes "images s = JArr xs" and "JNull \<notin> set xs"
  shows "get_image_by_id s i = Inr (find (\<lambda>x. get_id x = Inr (Some (JStr i))) xs)"
proof -
  have "\<forall>x \<in> set xs. image_has_id i x = Inr (get_id x = Inr (Some (JStr i)))"
    using assms(2) by (auto intro: image_has_id_not_null)
  then show ?thesis
    using assms(1) by (simp add: get_image_by_id_array js_find_pure)
qed

section \<open>Properties of fetchImages\<close>

text \<open>
  C1. A fetch that receives an ok status and a body that parses replaces the images
  by the parsed body as it is, clears \<open>loading\<close>, leaves \<open>error\<close> cleared, and
  logs nothing.
\<close>

theorem fetch_images_success:
  assumes "response_ok st"
  shows "fetch_images s (Got_Response st) (Body_Parsed data) =
           (s\<lparr>images := data, loading := False, error := None\<rparr>, [])"
  using assms by (simp add: fetch_images_eq fetch_start_def)

theorem fetch_images_success_witness:
  "response_ok 200 \<and>
   fetch_images init_store (Got_Response 200) (Body_Parsed (JArr [JStr ''a''])) =
     (init_store\<lparr>images := JArr [JStr ''a''], loading := False, error := None\<rparr>, [])"
  using fetch_images_success [of 200 init_store "JArr [JStr ''a'']"]
  by (simp add: model_eval)

text \<open>
  C2. A fetch whose \<open>try\<close> block throws, whatever the cause (network, status, body),
  keeps the images it had, clears \<open>loading\<close>, stores the text of the exception in
  \<open>error\<close> and logs exactly one line with the exception.
\<close>

theorem fetch_images_failure:
  assumes "try_block fo bo = Inl err"
  shows "fetch_images s fo bo =
           (s\<lparr>loading := False, error := Some (error_text err)\<rparr>, [(''Error fetching images:'', err)])"
  using assms by (rule fetch_images_log_Inl)

theorem fetch_images_failure_witness:
  "try_block (Network_Failure (Exn_Value JNull)) (Body_Parsed JNull) = Inl (Exn_Value JNull) \<and>
   fetch_images init_store (Network_Failure (Exn_Value JNull)) (Body_Parsed JNull) =
     (init_store\<lparr>loading := False, error := Some ''Failed to fetch images''\<rparr>,
      [(''Error fetching images:'', Exn_Value JNull)])"
  using fetch_images_failure [of "Network_Failure (Exn_Value JNull)" "Body_Parsed JNull" "Exn_Value JNull" init_store]
  by simp

text \<open>
  C3. A response whose status is not ok leaves the images unchanged and sets
  \<open>error\<close> to \<open>HTTP error! status: \<close> followed by the decimal digits of the status;
  the body is never read.
\<close>

theorem fetch_images_http_error:
  assumes "\<not> response_ok st"
  shows "images (fst (fetch_images s (Got_Response st) bo)) = images s \<and>
         error (fst (fetch_images s (Got_Response st) bo)) = Some (''HTTP error! status: '' @ decimal (unat st)) \<and>
         fst (fetch_images s (Got_Response st) bo) = fst (fetch_images s (Got_Response st) bo')"
  using assms by (simp add: fetch_images_eq fetch_start_def http_error_message_def http_error_prefix_def)

theorem fetch_images_http_error_witness:
  "\<not> response_ok 500 \<and>
   images (fst (fetch_images init_store (Got_Response 500) (Body_Parsed JNull))) = JArr [] \<and>
   error (fst (fetch_images init_store (Got_Response 500) (Body_Parsed JNull))) = Some ''HTTP error! status: 500''"
proof -
  have ok: "\<not> response_ok 500" by (simp add: model_eval)
  show ?thesis
    using fetch_images_http_error [OF ok, of init_store "Body_Parsed JNull" "Body_Parsed JNull"] ok
    by (simp add: model_eval decimal_eval)
qed

text \<open>
  C4. A thrown value that is not an instance of \<open>Error\<close> is reported with the
  fallback text \<open>Failed to fetch images\<close>.
\<close>

theorem fetch_images_fallback_text:
  assumes "\<not> is_error_instance err"
  shows "error (fst (fetch_images s (Network_Failure err) bo)) = Some ''Failed to fetch images''"
  using assms by (cases err) (simp_all add: fetch_images_eq)

theorem fetch_images_fallback_text_witness:
  "\<not> is_error_instance (Exn_Value (JStr ''offline'')) \<and>
   error (fst (fetch_images init_store (Network_Failure (Exn_Value (JStr ''offline''))) (Body_Parsed JNull)))
     = Some ''Failed to fetch images''"
  using fetch_images_fallback_text [of "Exn_Value (JStr ''offline'')" init_store "Body_Parsed JNull"]
  by simp

text \<open>
  C5. An \<open>Error\<close> whose message is empty is stored as the empty string: the fallback
  text is taken only for values that are not instances of \<open>Error\<close>, never for an
  \<open>Error\<close> that carries no description.
\<close>

theorem fetch_images_empty_message:
  "error (fst (fetch_images s (Network_Failure (Exn_Error name [])) bo)) = Some []"
  by (simp add: fetch_images_eq)

text \<open>
  C6. Running the handler twice with the same answers gives the store that one run
  gives, from any store.
\<close>

theorem fetch_images_idempotent:
  "fst (fetch_images (fst (fetch_images s fo bo)) fo bo) = fst (fetch_images s fo bo)"
  by (cases "try_block fo bo") (simp_all add: fetch_images_eq fetch_start_def)

text \<open>
  C19. The store a run of the handler leaves depends on the store it started from only
  through \<open>images\<close>: neither an old \<open>error\<close> nor the \<open>loading\<close> flag of the
  previous state survives a completed call.
\<close>

theorem fetch_images_frame:
  assumes "images s = images s'"
  shows "fst (fetch_images s fo bo) = fst (fetch_images s' fo bo)"
  using settle_fetch_start_images [OF assms] by (simp add: fetch_images_eq)

theorem fetch_images_frame_witness:
  "images (init_store\<lparr>loading := True, error := Some ''old''\<rparr>) = images init_store \<and>
   fst (fetch_images (init_store\<lparr>loading := True, error := Some ''old''\<rparr>) (Got_Response 200) (Body_Parsed (JArr [])))
     = fst (fetch_images init_store (Got_Response 200) (Body_Parsed (JArr [])))"
proof -
  have i: "images (init_store\<lparr>loading := True, error := Some ''old''\<rparr>) = images init_store" by simp
  show ?thesis using fetch_images_frame [OF i, of "Got_Response 200" "Body_Parsed (JArr [])"] i by simp
qed

section \<open>Properties of getImageById\<close>

text \<open>
  C7. On an array with no \<open>null\<close> element, \<open>getImageById(i)\<close> returns the first
  element whose \<open>id\<close> member is the string \<open>i\<close>, and \<open>undefined\<close> when there is
  none: it computes \<^const>\<open>find\<close> with that predicate.
\<close>

theorem get_image_by_id_find:
  assumes "images s = JArr xs" and "JNull \<notin> set xs"
  shows "get_image_by_id s i = Inr (find (\<lambda>x. get_id x = Inr (Some (JStr i))) xs)"
  using assms by (rule get_image_by_id_pure)

theorem get_image_by_id_find_witness:
  "images (init_store\<lparr>images := JArr [JObj [(''id'', JStr ''0'')], JObj [(''id'', JStr ''1'')]]\<rparr>)
     = JArr [JObj [(''id'', JStr ''0'')], JObj [(''id'', JStr ''1'')]] \<and>
   JNull \<notin> set [JObj [(''id'', JStr ''0'')], JObj [(''id'', JStr ''1'')]] \<and>
   get_image_by_id (init_store\<lparr>images := JArr [JObj [(''id'', JStr ''0'')], JObj [(''id'', JStr ''1'')]]\<rparr>) ''1''
     = Inr (Some (JObj [(''id'', JStr ''1'')]))"
  using get_image_by_id_find [of "init_store\<lparr>images := JArr [JObj [(''id'', JStr ''0'')], JObj [(''id'', JStr ''1'')]]\<rparr>"
      "[JObj [(''id'', JStr ''0'')], JObj [(''id'', JStr ''1'')]]" "''1''"]
  by simp

text \<open>
  C8. A \<open>null\<close> element reached before any match makes \<open>getImageById\<close> throw a
  \<open>TypeError\<close> to its caller: the lookup is not total on the data the store accepts.
\<close>

theorem get_image_by_id_null:
  assumes "images s = JArr (ys @ JNull # zs)" and "JNull \<notin> set ys"
    and "\<forall>y \<in> set ys. get_id y \<noteq> Inr (Some (JStr i))"
  shows "get_image_by_id s i = Inl (type_error ''Cannot read properties of null (reading id)'')"
proof -
  have "image_has_id i y = Inr False" if y: "y \<in> set ys" for y
  proof -
    from y assms(2) have "y \<noteq> JNull" by auto
    with y assms(3) show ?thesis by (simp add: image_has_id_not_null)
  qed
  then have "js_find (image_has_id i) (ys @ JNull # zs) = Inl (type_error ''Cannot read properties of null (reading id)'')"
    by (simp add: js_find_skip image_has_id_null)
  then show ?thesis
    using assms(1) by (simp add: get_image_by_id_array)
qed

theorem get_image_by_id_null_witness:
  "images (init_store\<lparr>images := JArr [JObj [], JNull]\<rparr>) = JArr ([JObj []] @ JNull # []) \<and>
   JNull \<notin> set [JObj []] \<and> get_id (JObj []) \<noteq> Inr (Some (JStr ''7'')) \<and>
   get_image_by_id (init_store\<lparr>images := JArr [JObj [], JNull]\<rparr>) ''7''
     = Inl (type_error ''Cannot read properties of null (reading id)'')"
  using get_image_by_id_null [of "init_store\<lparr>images := JArr [JObj [], JNull]\<rparr>" "[JObj []]" "[]" "''7''"]
  by simp

text \<open>
  C9. When the stored value is not an array (a body that parsed to an object, a
  string, a number, a boolean or \<open>null\<close>), every \<open>getImageById\<close> throws a
  \<open>TypeError\<close>.
\<close>

theorem get_image_by_id_not_array:
  assumes "\<forall>xs. images s \<noteq> JArr xs"
  shows "\<exists>msg. get_image_by_id s i = Inl (type_error msg)"
  using assms by (cases "images s") (auto simp: get_image_by_id_def)

theorem get_image_by_id_not_array_witness:
  "(\<forall>xs. images (init_store\<lparr>images := JObj []\<rparr>) \<noteq> JArr xs) \<and>
   (\<exists>msg. get_image_by_id (init_store\<lparr>images := JObj []\<rparr>) ''0'' = Inl (type_error msg))"
  using get_image_by_id_not_array [of "init_store\<lparr>images := JObj []\<rparr>" "''0''"]
  by simp

end
