(* ===== verification/Async_Runtime.thy ===== *)
theory Async_Runtime
  imports Image_Store
begin

text \<open>
  \<open>fetchImages\<close> is \<open>async\<close>: each call runs lines 11 and 12 and issues the request
  at once, then suspends at \<open>await fetch(...)\<close> and, on an ok status, again at
  \<open>await response.json()\<close>. The JavaScript event loop runs one continuation at a
  time, so the handler's pieces are atomic, but nothing stops a second call from
  starting while the first is suspended, and the network settles the pending promises
  in any order. This theory models that: a runtime holds the store, the console, and
  the calls in flight with the await each is suspended at; an event is a call, or one
  pending promise settling with some answer. Reachable runtimes are an inductive
  predicate; the invariants are proved by rule induction over it.
\<close>

section \<open>Runtime and events\<close>

datatype phase = Awaiting_Fetch | Awaiting_Body

record runtime =
  rt_store :: store
  rt_console :: "log_entry list"
  rt_calls :: "nat \<rightharpoonup> phase"
  rt_next :: nat

definition init_runtime :: runtime where
  "init_runtime = \<lparr>rt_store = init_store, rt_console = [], rt_calls = Map.empty, rt_next = 0\<rparr>"

datatype event =
    Call_Fetch
  | Fetch_Settles nat fetch_outcome
  | Body_Settles nat body_outcome

text \<open>
  A call that has its result runs \<open>catch\<close> and \<open>finally\<close> (lines 22 to 28) and
  is no longer in flight.
\<close>

definition finish_call :: "runtime \<Rightarrow> nat \<Rightarrow> thrown + json \<Rightarrow> runtime" where
  "finish_call w c r =
     w\<lparr>rt_store := settle (rt_store w) r, rt_console := rt_console w @ settle_log r,
       rt_calls := (rt_calls w)(c := None)\<rparr>"

text \<open>
  One event: \<open>None\<close> when it cannot happen (the call is not suspended at that await).
  A call runs lines 11 and 12 and suspends at line 15; a settled \<open>fetch\<close> either
  finishes the call with its exception or moves it to line 21; a settled body
  finishes it.
\<close>

fun exec_event :: "runtime \<Rightarrow> event \<Rightarrow> runtime option" where
  "exec_event w Call_Fetch =
     Some (w\<lparr>rt_store := fetch_start (rt_store w),
             rt_calls := (rt_calls w)(rt_next w \<mapsto> Awaiting_Fetch),
             rt_next := Suc (rt_next w)\<rparr>)"
| "exec_event w (Fetch_Settles c fo) =
     (if rt_calls w c \<noteq> Some Awaiting_Fetch then None
      else (case after_fetch fo of
              Inl err \<Rightarrow> Some (finish_call w c (Inl err))
            | Inr _ \<Rightarrow> Some (w\<lparr>rt_calls := (rt_calls w)(c \<mapsto> Awaiting_Body)\<rparr>)))"
| "exec_event w (Body_Settles c bo) =
     (if rt_calls w c \<noteq> Some Awaiting_Body then None
      else Some (finish_call w c (after_body bo)))"

fun run_events :: "runtime \<Rightarrow> event list \<Rightarrow> runtime option" where
  "run_events w [] = Some w"
| "run_events w (e # es) = (case exec_event w e of None \<Rightarrow> None | Some w' \<Rightarrow> run_events w' es)"

inductive reachable :: "runtime \<Rightarrow> bool" where
  start: "reachable init_runtime"
| step: "reachable w \<Longrightarrow> exec_event w e = Some w' \<Longrightarrow> reachable w'"

text \<open>
  The events of one call awaited to completion: the call, the settled \<open>fetch\<close> and,
  after an ok status, the settled body.
\<close>

definition call_events :: "nat \<Rightarrow> fetch_outcome \<Rightarrow> body_outcome \<Rightarrow> event list" where
  "call_events c fo bo =
     Call_Fetch # Fetch_Settles c fo # (case after_fetch fo of Inl _ \<Rightarrow> [] | Inr _ \<Rightarrow> [Body_Settles c bo])"

text \<open>In completion order, the body that the last successful completion stored.\<close>

fun last_body :: "json \<Rightarrow> event list \<Rightarrow> json" where
  "last_body d [] = d"
| "last_body d (Body_Settles c (Body_Parsed d') # es) = last_body d' es"
| "last_body d (_ # es) = last_body d es"

text \<open>
  What one event does to the store alone, with no reference to which call it belongs
  to: a call starts, a failed \<open>fetch\<close> or a settled body finishes.
\<close>

fun store_step :: "store \<Rightarrow> event \<Rightarrow> store" where
  "store_step s Call_Fetch = fetch_start s"
| "store_step s (Fetch_Settles c fo) = (case after_fetch fo of Inl err \<Rightarrow> settle s (Inl err) | Inr _ \<Rightarrow> s)"
| "store_step s (Body_Settles c bo) = settle s (after_body bo)"

text \<open>The events that finish a call with an exception.\<close>

fun event_fails :: "event \<Rightarrow> bool" where
  "event_fails Call_Fetch = False"
| "event_fails (Fetch_Settles c fo) = isl (after_fetch fo)"
| "event_fails (Body_Settles c bo) = isl (after_body bo)"

declare init_runtime_def [model_eval] finish_call_def [model_eval]

section \<open>Invariants\<close>

definition calls_fresh :: "runtime \<Rightarrow> bool" where
  "calls_fresh w \<longleftrightarrow> (\<forall>c \<in> dom (rt_calls w). c < rt_next w)"

definition loading_inv :: "runtime \<Rightarrow> bool" where
  "loading_inv w \<longleftrightarrow> (loading (rt_store w) \<longrightarrow> rt_calls w \<noteq> Map.empty)"

definition error_logged :: "runtime \<Rightarrow> bool" where
  "error_logged w \<longleftrightarrow>
     (\<forall>m. error (rt_store w) = Some m \<longrightarrow> rt_console w \<noteq> [] \<and> error_text (snd (last (rt_console w))) = m)"

section \<open>One event at a time\<close>

fun_cases exec_event_SomeE: "exec_event w e = Some w'"

lemma finish_call_store [simp]: "rt_store (finish_call w c r) = settle (rt_store w) r"
  by (simp add: finish_call_def)

lemma finish_call_frame [simp]:
  "rt_console (finish_call w c r) = rt_console w @ settle_log r"
  "rt_calls (finish_call w c r) = (rt_calls w)(c := None)"
  "rt_next (finish_call w c r) = rt_next w"
  by (simp_all add: finish_call_def)

lemma reachable_run:
  "run_events w es = Some w' \<Longrightarrow> reachable w \<Longrightarrow> reachable w'"
  by (induction w es rule: run_events.induct) (auto split: option.splits intro: reachable.step)

lemma exec_calls_fresh [inv_step]: "exec_event w e = Some w' \<Longrightarrow> calls_fresh w \<Longrightarrow> calls_fresh w'"
  by (erule exec_event_SomeE) (auto simp: calls_fresh_def dom_def less_Suc_eq split: if_splits sum.splits)

lemma exec_loading_inv [inv_step]: "exec_event w e = Some w' \<Longrightarrow> loading_inv w \<Longrightarrow> loading_inv w'"
  by (erule exec_event_SomeE) (auto simp: loading_inv_def split: if_splits sum.splits)

lemma exec_error_logged [inv_step]: "exec_event w e = Some w' \<Longrightarrow> error_logged w \<Longrightarrow> error_logged w'"
  by (erule exec_event_SomeE)
    (auto simp: error_logged_def settle_def settle_log_def fetch_start_def split: if_splits sum.splits)

lemma reachable_invariants:
  "reachable w \<Longrightarrow> calls_fresh w \<and> loading_inv w \<and> error_logged w"
proof (induction rule: reachable.induct)
  case start
  show ?case by (simp add: model_eval calls_fresh_def loading_inv_def error_logged_def)
next
  case (step w e w')
  then show ?case by (blast intro: inv_step)
qed

lemma calls_fresh_finite: "calls_fresh w \<Longrightarrow> finite (dom (rt_calls w))"
  by (rule finite_subset [of _ "{..<rt_next w}"]) (auto simp: calls_fresh_def)

lemma calls_fresh_next: "calls_fresh w \<Longrightarrow> rt_calls w (rt_next w) = None"
  by (auto simp: calls_fresh_def)

lemma exec_images:
  "images (rt_store w') = last_body (images (rt_store w)) [e]" if "exec_event w e = Some w'"
proof (cases e)
  case (Body_Settles c bo)
  with that show ?thesis by (cases bo) (auto simp: settle_def split: if_splits)
qed (use that in \<open>auto simp: fetch_start_def settle_def split: if_splits sum.splits\<close>)

lemma last_body_Cons: "last_body d (e # es) = last_body (last_body d [e]) es"
  by (cases "(d, e # es)" rule: last_body.cases) simp_all

lemma run_images:
  "run_events w es = Some w' \<Longrightarrow> images (rt_store w') = last_body (images (rt_store w)) es"
proof (induction w es rule: run_events.induct)
  case (1 w)
  then show ?case by simp
next
  case (2 w e es)
  then obtain w1 where step: "exec_event w e = Some w1" and rest: "run_events w1 es = Some w'"
    by (auto split: option.splits)
  from "2.IH" [OF step rest] exec_images [OF step] show ?case
    by (simp add: last_body_Cons [of _ e es])
qed

lemma exec_store:
  "exec_event w e = Some w' \<Longrightarrow> rt_store w' = store_step (rt_store w) e"
  by (erule exec_event_SomeE) (auto split: if_splits sum.splits)

lemma exec_console:
  "exec_event w e = Some w' \<Longrightarrow>
     \<exists>l. rt_console w' = rt_console w @ l \<and> length l = (if event_fails e then 1 else 0)"
  by (erule exec_event_SomeE) (auto simp: settle_log_def split: if_splits sum.splits)

section \<open>Properties of the interleaved handler\<close>

text \<open>
  C10. In every reachable runtime, \<open>loading\<close> is true only while some call is in
  flight: no completed run leaves the flag set.
\<close>

theorem reachable_loading_in_flight:
  assumes "reachable w" and "loading (rt_store w)"
  shows "rt_calls w \<noteq> Map.empty"
  using reachable_invariants [OF assms(1)] assms(2) by (simp add: loading_inv_def)

theorem reachable_loading_in_flight_witness:
  "reachable (init_runtime\<lparr>rt_store := fetch_start init_store, rt_calls := [0 \<mapsto> Awaiting_Fetch], rt_next := 1\<rparr>) \<and>
   loading (rt_store (init_runtime\<lparr>rt_store := fetch_start init_store, rt_calls := [0 \<mapsto> Awaiting_Fetch], rt_next := 1\<rparr>)) \<and>
   rt_calls (init_runtime\<lparr>rt_store := fetch_start init_store, rt_calls := [0 \<mapsto> Awaiting_Fetch], rt_next := 1\<rparr>) \<noteq> Map.empty"
proof -
  let ?w = "init_runtime\<lparr>rt_store := fetch_start init_store, rt_calls := [0 \<mapsto> Awaiting_Fetch], rt_next := 1\<rparr>"
  have "exec_event init_runtime Call_Fetch = Some ?w" by (simp add: model_eval)
  then have r: "reachable ?w" by (rule reachable.step [OF reachable.start])
  have l: "loading (rt_store ?w)" by simp
  show ?thesis using reachable_loading_in_flight [OF r l] r l by simp
qed

text \<open>
  C11. In every reachable runtime, a non-empty \<open>error\<close> is the text of the last
  exception written to the console: every error the store shows was logged, and the
  log's last entry is the one shown.
\<close>

theorem reachable_error_logged:
  assumes "reachable w" and "error (rt_store w) = Some m"
  shows "rt_console w \<noteq> [] \<and> error_text (snd (last (rt_console w))) = m"
  using reachable_invariants [OF assms(1)] assms(2) by (simp add: error_logged_def)

theorem reachable_error_logged_witness:
  "\<exists>w. run_events init_runtime [Call_Fetch, Fetch_Settles 0 (Got_Response 404)] = Some w \<and>
       reachable w \<and> error (rt_store w) = Some ''HTTP error! status: 404'' \<and>
       rt_console w \<noteq> [] \<and> error_text (snd (last (rt_console w))) = ''HTTP error! status: 404''"
proof -
  obtain w where run: "run_events init_runtime [Call_Fetch, Fetch_Settles 0 (Got_Response 404)] = Some w"
    and err: "error (rt_store w) = Some ''HTTP error! status: 404''"
    by (simp add: model_eval decimal_eval)
  from reachable_run [OF run reachable.start] have r: "reachable w" .
  show ?thesis using reachable_error_logged [OF r err] run r err by blast
qed

text \<open>
  C12. Calling \<open>fetchImages\<close> sets \<open>loading\<close> and clears \<open>error\<close> before its first
  suspension, leaves the images as they were, and leaves the call suspended at
  \<open>await fetch\<close>.
\<close>

theorem call_fetch_observable:
  assumes "exec_event w Call_Fetch = Some w'"
  shows "loading (rt_store w') \<and> error (rt_store w') = None \<and>
         images (rt_store w') = images (rt_store w) \<and> rt_calls w' (rt_next w) = Some Awaiting_Fetch"
  using assms by auto

theorem call_fetch_observable_witness:
  "exec_event (init_runtime\<lparr>rt_store := init_store\<lparr>error := Some ''x''\<rparr>\<rparr>) Call_Fetch =
     Some (init_runtime\<lparr>rt_store := init_store\<lparr>loading := True\<rparr>, rt_calls := [0 \<mapsto> Awaiting_Fetch], rt_next := 1\<rparr>) \<and>
   loading (rt_store (init_runtime\<lparr>rt_store := init_store\<lparr>loading := True\<rparr>, rt_calls := [0 \<mapsto> Awaiting_Fetch], rt_next := 1\<rparr>))"
proof -
  have e: "exec_event (init_runtime\<lparr>rt_store := init_store\<lparr>error := Some ''x''\<rparr>\<rparr>) Call_Fetch =
     Some (init_runtime\<lparr>rt_store := init_store\<lparr>loading := True\<rparr>, rt_calls := [0 \<mapsto> Awaiting_Fetch], rt_next := 1\<rparr>)"
    by (simp add: model_eval)
  show ?thesis using call_fetch_observable [OF e] e by simp
qed

text \<open>
  C13. Nothing counts the calls in flight: whenever a call completes, with its body
  or with an exception from \<open>fetch\<close>, its \<open>finally\<close> clears \<open>loading\<close>, and every
  other call stays suspended where it was. With overlapping calls the store shows
  \<open>loading = false\<close> while a request is still pending.
\<close>

theorem overlap_loading_cleared:
  assumes "exec_event w e = Some w'"
    and "e = Body_Settles c bo \<or> (e = Fetch_Settles c fo \<and> isl (after_fetch fo))"
    and "c' \<noteq> c"
  shows "\<not> loading (rt_store w') \<and> rt_calls w' c' = rt_calls w c'"
  using assms by (auto simp: settle_def split: if_splits sum.splits)

theorem overlap_loading_cleared_witness:
  "\<exists>w w'. run_events init_runtime [Call_Fetch, Call_Fetch, Fetch_Settles 0 (Got_Response 200)] = Some w \<and>
     exec_event w (Body_Settles 0 (Body_Parsed (JArr []))) = Some w' \<and>
     rt_calls w 1 = Some Awaiting_Fetch \<and>
     \<not> loading (rt_store w') \<and> rt_calls w' 1 = Some Awaiting_Fetch"
proof -
  obtain w where run: "run_events init_runtime [Call_Fetch, Call_Fetch, Fetch_Settles 0 (Got_Response 200)] = Some w"
    and c1: "rt_calls w 1 = Some Awaiting_Fetch" and c0: "rt_calls w 0 = Some Awaiting_Body"
    by (simp add: model_eval)
  obtain w' where e: "exec_event w (Body_Settles 0 (Body_Parsed (JArr []))) = Some w'"
    using c0 by simp
  have "\<not> loading (rt_store w') \<and> rt_calls w' 1 = rt_calls w 1"
    using overlap_loading_cleared [OF e, of 0 "Body_Parsed (JArr [])" "Network_Failure (Exn_Value JNull)" 1] by simp
  with run e c1 show ?thesis by auto
qed

text \<open>
  C14. The images after any run are the body of the last call to complete with a
  parsed body, in completion order, not in call order; with no such completion they
  are the images the run started from.
\<close>

theorem run_images_last_body:
  assumes "run_events w es = Some w'"
  shows "images (rt_store w') = last_body (images (rt_store w)) es"
  using assms by (rule run_images)

theorem run_images_last_body_witness:
  "\<exists>w'. run_events init_runtime
      [Call_Fetch, Call_Fetch, Fetch_Settles 1 (Got_Response 200), Body_Settles 1 (Body_Parsed (JArr [JStr ''new''])),
       Fetch_Settles 0 (Got_Response 200), Body_Settles 0 (Body_Parsed (JArr [JStr ''old'']))] = Some w' \<and>
     images (rt_store w') = JArr [JStr ''old'']"
proof -
  obtain w' where run: "run_events init_runtime
      [Call_Fetch, Call_Fetch, Fetch_Settles 1 (Got_Response 200), Body_Settles 1 (Body_Parsed (JArr [JStr ''new''])),
       Fetch_Settles 0 (Got_Response 200), Body_Settles 0 (Body_Parsed (JArr [JStr ''old'']))] = Some w'"
    by (simp add: model_eval)
  show ?thesis using run_images_last_body [OF run] run by auto
qed

text \<open>
  C20. Under any interleaving, the store after a run is the fold of the per-event
  updates over the events in completion order: which call an event belongs to, and
  in which order the calls started, do not matter to the store.
\<close>

theorem run_store_fold:
  assumes "run_events w es = Some w'"
  shows "rt_store w' = foldl store_step (rt_store w) es"
  using assms
proof (induction w es rule: run_events.induct)
  case (1 w)
  then show ?case by simp
next
  case (2 w e es)
  then obtain w1 where step: "exec_event w e = Some w1" and rest: "run_events w1 es = Some w'"
    by (auto split: option.splits)
  with "2.IH" exec_store [OF step] show ?case by simp
qed

theorem run_store_fold_witness:
  "\<exists>w'. run_events init_runtime [Call_Fetch, Call_Fetch, Fetch_Settles 1 (Got_Response 503),
        Fetch_Settles 0 (Got_Response 200), Body_Settles 0 (Body_Parsed (JArr []))] = Some w' \<and>
     rt_store w' = foldl store_step init_store [Call_Fetch, Call_Fetch, Fetch_Settles 1 (Got_Response 503),
        Fetch_Settles 0 (Got_Response 200), Body_Settles 0 (Body_Parsed (JArr []))]"
proof -
  obtain w' where run: "run_events init_runtime [Call_Fetch, Call_Fetch, Fetch_Settles 1 (Got_Response 503),
        Fetch_Settles 0 (Got_Response 200), Body_Settles 0 (Body_Parsed (JArr []))] = Some w'"
    by (simp add: model_eval)
  show ?thesis using run_store_fold [OF run] run by (simp add: model_eval)
qed

text \<open>
  C21. The console is append-only, and a run writes exactly one line per call that
  finishes with an exception and nothing for the others.
\<close>

theorem run_console_failures:
  assumes "run_events w es = Some w'"
  shows "prefix (rt_console w) (rt_console w') \<and>
         length (rt_console w') = length (rt_console w) + length (filter event_fails es)"
  using assms
proof (induction w es rule: run_events.induct)
  case (1 w)
  then show ?case by simp
next
  case (2 w e es)
  then obtain w1 where step: "exec_event w e = Some w1" and rest: "run_events w1 es = Some w'"
    by (auto split: option.splits)
  from exec_console [OF step] obtain l where
    l: "rt_console w1 = rt_console w @ l" and len: "length l = (if event_fails e then 1 else 0)"
    by blast
  from "2.IH" [OF step rest] l len show ?case
    by (auto dest: append_prefixD)
qed

theorem run_console_failures_witness:
  "\<exists>w'. run_events init_runtime [Call_Fetch, Call_Fetch, Fetch_Settles 1 (Got_Response 503),
        Fetch_Settles 0 (Network_Failure (Exn_Value JNull))] = Some w' \<and>
     prefix [] (rt_console w') \<and> length (rt_console w') = 2"
proof -
  obtain w' where run: "run_events init_runtime [Call_Fetch, Call_Fetch, Fetch_Settles 1 (Got_Response 503),
        Fetch_Settles 0 (Network_Failure (Exn_Value JNull))] = Some w'"
    by (simp add: model_eval)
  show ?thesis using run_console_failures [OF run] run by (simp add: model_eval)
qed

end
