(* ===== verification/Picsum_Model.thy ===== *)
theory Picsum_Model
  imports Image_Store "HOL-Library.Monad_Syntax"
begin

text \<open>
  The typed view of the store that the spec describes and the TypeScript annotations
  promise: a list of \<open>PicsumImage\<close> records (\<^verbatim>\<open>@/types/imgTypes\<close>, not part of the
  staged sources, modelled from the spec and the upstream service's schema), a flag
  and an optional message, with \<open>fetchImages\<close> replacing the list or recording the
  message, and \<open>getImageById\<close> as \<^const>\<open>find\<close> on the identifier. A decoder from
  JSON values to records is the abstraction function; the refinement lemmas say that
  the untyped store of \<^verbatim>\<open>Image_Store\<close> implements this view as long as the bodies
  the server sends decode.
\<close>

section \<open>Records and their JSON form\<close>

record picsum_image =
  img_id :: js_string
  author :: js_string
  width :: int
  height :: int
  url :: js_string
  download_url :: js_string

definition member :: "(js_string \<times> json) list \<Rightarrow> js_string \<Rightarrow> json option" where
  "member ms k = map_of (rev ms) k"

fun as_str :: "json \<Rightarrow> js_string option" where
  "as_str (JStr s) = Some s"
| "as_str _ = None"

fun as_num :: "json \<Rightarrow> int option" where
  "as_num (JNum n) = Some n"
| "as_num _ = None"

definition field :: "(json \<Rightarrow> 'a option) \<Rightarrow> (js_string \<times> json) list \<Rightarrow> js_string \<Rightarrow> 'a option" where
  "field conv ms k = member ms k \<bind> conv"

fun decode_image :: "json \<Rightarrow> picsum_image option" where
  "decode_image (JObj ms) =
     do {
       i \<leftarrow> field as_str ms ''id'';
       a \<leftarrow> field as_str ms ''author'';
       w \<leftarrow> field as_num ms ''width'';
       h \<leftarrow> field as_num ms ''height'';
       u \<leftarrow> field as_str ms ''url'';
       d \<leftarrow> field as_str ms ''download_url'';
       Some \<lparr>img_id = i, author = a, width = w, height = h, url = u, download_url = d\<rparr>
     }"
| "decode_image _ = None"

definition encode_image :: "picsum_image \<Rightarrow> json" where
  "encode_image r =
     JObj [(''id'', JStr (img_id r)), (''author'', JStr (author r)), (''width'', JNum (width r)),
           (''height'', JNum (height r)), (''url'', JStr (url r)), (''download_url'', JStr (download_url r))]"

fun decode_images :: "json \<Rightarrow> picsum_image list option" where
  "decode_images (JArr xs) = those (map decode_image xs)"
| "decode_images _ = None"

section \<open>The abstract store\<close>

record abs_store =
  a_images :: "picsum_image list"
  a_loading :: bool
  a_error :: "js_string option"

definition abs_of :: "store \<Rightarrow> abs_store option" where
  "abs_of s =
     map_option (\<lambda>rs. \<lparr>a_images = rs, a_loading = loading s, a_error = error s\<rparr>) (decode_images (images s))"

text \<open>
  The spec's operations: a completed fetch either replaces the collection and clears
  the error, or keeps the collection and records the message; the lookup returns the
  first record with the identifier.
\<close>

definition abs_fetch :: "abs_store \<Rightarrow> js_string + picsum_image list \<Rightarrow> abs_store" where
  "abs_fetch a r =
     (case r of
        Inr rs \<Rightarrow> a\<lparr>a_images := rs, a_loading := False, a_error := None\<rparr>
      | Inl msg \<Rightarrow> a\<lparr>a_loading := False, a_error := Some msg\<rparr>)"

definition abs_get :: "abs_store \<Rightarrow> js_string \<Rightarrow> picsum_image option" where
  "abs_get a i = find (\<lambda>r. img_id r = i) (a_images a)"

definition typed_result :: "thrown + json \<Rightarrow> (js_string + picsum_image list) option" where
  "typed_result r =
     (case r of Inl err \<Rightarrow> Some (Inl (error_text err)) | Inr d \<Rightarrow> map_option Inr (decode_images d))"

section \<open>Decoding\<close>

lemma those_Some_iff: "those xs = Some ys \<longleftrightarrow> list_all2 (\<lambda>x y. x = Some y) xs ys"
proof (induction xs arbitrary: ys)
  case Nil
  then show ?case by auto
next
  case (Cons x xs)
  then show ?case by (cases x) (auto simp: list_all2_Cons1)
qed

lemma decode_images_Some:
  "decode_images v = Some rs \<longleftrightarrow> (\<exists>xs. v = JArr xs \<and> list_all2 (\<lambda>x r. decode_image x = Some r) xs rs)"
  by (cases v) (simp_all add: those_Some_iff list_all2_map1)

lemma decode_image_Some_get_id:
  "decode_image x = Some r \<Longrightarrow> get_id x = Inr (Some (JStr (img_id r)))"
  by (cases x)
    (auto simp: field_def member_def bind_eq_Some_conv elim!: as_str.elims as_num.elims)

lemma decode_encode_image [simp]: "decode_image (encode_image r) = Some r"
  by (simp add: encode_image_def field_def member_def)

lemma decode_images_not_null:
  assumes "decode_images (JArr xs) = Some rs"
  shows "JNull \<notin> set xs"
proof
  assume "JNull \<in> set xs"
  moreover from assms have "list_all2 (\<lambda>x r. decode_image x = Some r) xs rs"
    by (simp add: those_Some_iff list_all2_map1)
  ultimately have "\<exists>r \<in> set rs. decode_image JNull = Some r"
    by (blast dest: list_all2_set1_ex)
  then show False by simp
qed

lemma abs_of_Some:
  "abs_of s = Some a \<longleftrightarrow>
     (\<exists>rs. decode_images (images s) = Some rs \<and> a = \<lparr>a_images = rs, a_loading = loading s, a_error = error s\<rparr>)"
  by (auto simp: abs_of_def)

lemma get_image_by_id_abs_get:
  assumes "abs_of s = Some a"
  shows "\<exists>j. get_image_by_id s i = Inr j \<and> rel_option (\<lambda>x r. decode_image x = Some r) j (abs_get a i)"
proof -
  from assms obtain rs where dec: "decode_images (images s) = Some rs"
    and a: "a = \<lparr>a_images = rs, a_loading = loading s, a_error = error s\<rparr>"
    by (auto simp: abs_of_Some)
  from dec obtain xs where img: "images s = JArr xs"
    and rel: "list_all2 (\<lambda>x r. decode_image x = Some r) xs rs"
    by (auto simp: decode_images_Some)
  from dec img have "JNull \<notin> set xs" by (simp add: decode_images_not_null)
  with img have get: "get_image_by_id s i = Inr (find (\<lambda>x. get_id x = Inr (Some (JStr i))) xs)"
    by (rule get_image_by_id_pure)
  have "rel_option (\<lambda>x r. decode_image x = Some r)
          (find (\<lambda>x. get_id x = Inr (Some (JStr i))) xs) (find (\<lambda>r. img_id r = i) rs)"
    using rel by (rule find_rel_option) (auto dest: decode_image_Some_get_id)
  with get a show ?thesis by (simp add: abs_get_def)
qed

lemma abs_of_fetch_images:
  assumes "abs_of s = Some a" and "typed_result (try_block fo bo) = Some r"
  shows "abs_of (fst (fetch_images s fo bo)) = Some (abs_fetch a r)"
proof (cases "try_block fo bo")
  case (Inl err)
  with assms show ?thesis
    by (auto simp: abs_of_Some typed_result_def abs_fetch_def fetch_images_eq fetch_start_def)
next
  case (Inr d)
  with assms(2) obtain rs where "decode_images d = Some rs" and "r = Inr rs"
    by (auto simp: typed_result_def)
  with Inr assms(1) show ?thesis
    by (auto simp: abs_of_Some abs_fetch_def fetch_images_eq fetch_start_def)
qed

section \<open>Refinement\<close>

text \<open>
  C15. On a store whose images decode, \<open>getImageById\<close> does not throw, and what it
  returns decodes to what the abstract lookup returns: \<open>undefined\<close> exactly when the
  typed collection has no record with the identifier, otherwise an element that
  decodes to the first such record.
\<close>

theorem get_image_by_id_refines:
  assumes "abs_of s = Some a"
  shows "\<exists>j. get_image_by_id s i = Inr j \<and> rel_option (\<lambda>x r. decode_image x = Some r) j (abs_get a i)"
  using assms by (rule get_image_by_id_abs_get)

theorem get_image_by_id_refines_witness:
  "abs_of (init_store\<lparr>images := JArr [encode_image \<lparr>img_id = ''0'', author = ''A'', width = 10, height = 20, url = ''u'', download_url = ''d''\<rparr>]\<rparr>)
     = Some \<lparr>a_images = [\<lparr>img_id = ''0'', author = ''A'', width = 10, height = 20, url = ''u'', download_url = ''d''\<rparr>],
             a_loading = False, a_error = None\<rparr> \<and>
   (\<exists>j. get_image_by_id (init_store\<lparr>images := JArr [encode_image \<lparr>img_id = ''0'', author = ''A'', width = 10, height = 20, url = ''u'', download_url = ''d''\<rparr>]\<rparr>) ''0'' = Inr j \<and>
        rel_option (\<lambda>x r. decode_image x = Some r) j
          (abs_get \<lparr>a_images = [\<lparr>img_id = ''0'', author = ''A'', width = 10, height = 20, url = ''u'', download_url = ''d''\<rparr>],
                    a_loading = False, a_error = None\<rparr> ''0''))"
proof -
  let ?r = "\<lparr>img_id = ''0'', author = ''A'', width = 10, height = 20, url = ''u'', download_url = ''d''\<rparr>"
  let ?s = "init_store\<lparr>images := JArr [encode_image ?r]\<rparr>"
  let ?a = "\<lparr>a_images = [?r], a_loading = False, a_error = None\<rparr>"
  have abs: "abs_of ?s = Some ?a" by (simp add: abs_of_def init_store_def)
  show ?thesis using get_image_by_id_refines [OF abs, of "''0''"] abs by simp
qed

text \<open>
  C16. On a store whose images decode, a run of \<open>fetchImages\<close> whose result is
  typed (an exception, or a body that decodes) implements the abstract fetch: the
  abstraction of the new store is the abstract store after the fetch.
\<close>

theorem fetch_images_refines:
  assumes "abs_of s = Some a" and "typed_result (try_block fo bo) = Some r"
  shows "abs_of (fst (fetch_images s fo bo)) = Some (abs_fetch a r)"
  using assms by (rule abs_of_fetch_images)

theorem fetch_images_refines_witness:
  "abs_of init_store = Some \<lparr>a_images = [], a_loading = False, a_error = None\<rparr> \<and>
   typed_result (try_block (Got_Response 200) (Body_Parsed (JArr []))) = Some (Inr []) \<and>
   abs_of (fst (fetch_images init_store (Got_Response 200) (Body_Parsed (JArr [])))) =
     Some (abs_fetch \<lparr>a_images = [], a_loading = False, a_error = None\<rparr> (Inr []))"
proof -
  have abs: "abs_of init_store = Some \<lparr>a_images = [], a_loading = False, a_error = None\<rparr>"
    by (simp add: abs_of_def init_store_def)
  have typed: "typed_result (try_block (Got_Response 200) (Body_Parsed (JArr []))) = Some (Inr [])"
    by (simp add: model_eval typed_result_def)
  show ?thesis using fetch_images_refines [OF abs typed] abs typed by simp
qed

end
