(* ===== verification/Store_Api.thy ===== *)
theory Store_Api
  imports Async_Runtime
begin

text \<open>
  The store as its consumers see it: the object \<open>setup\<close> returns (lines 35 to 41),
  with the three reactive fields read unwrapped and the two functions. A consumer
  session interleaves uses of those members with the network settling pending
  promises. The theory also gives the pending work of the calls in flight, the
  measure that bounds how long the network can keep settling them.
\<close>

section \<open>Pending work of the calls in flight\<close>

text \<open>
  A call suspended at \<open>await fetch\<close> needs at most two more events (the response,
  then the body), one at \<open>await response.json()\<close> needs one.
\<close>

fun phase_work :: "phase \<Rightarrow> nat" where
  "phase_work Awaiting_Fetch = 2"
| "phase_work Awaiting_Body = 1"

definition calls_work :: "(nat \<rightharpoonup> phase) \<Rightarrow> nat" where
  "calls_work m = (\<Sum>c \<in> dom m. phase_work (the (m c)))"

definition pending_work :: "runtime \<Rightarrow> nat" where
  "pending_work w = calls_work (rt_calls w)"

section \<open>The members the store returns\<close>

text \<open>
  Lines 35 to 41 return \<open>images\<close>, \<open>loading\<close>, \<open>error\<close>, \<open>fetchImages\<close> and
  \<open>getImageById\<close>. Pinia unwraps the refs, so reading a field yields its current
  value; \<open>fetchImages()\<close> runs the handler up to its first \<open>await\<close> and returns the
  pending promise (named here by its call number); \<open>getImageById(id)\<close> returns the
  lookup's result or lets its exception reach the caller.
\<close>

datatype store_member =
    Read_Images
  | Read_Loading
  | Read_Error
  | Call_Fetch_Images
  | Call_Get_Image_By_Id js_string

datatype member_value =
    Images_Value json
  | Loading_Value bool
  | Error_Value "js_string option"
  | Fetch_Promise nat
  | Lookup_Value "thrown + json option"

fun use_member :: "runtime \<Rightarrow> store_member \<Rightarrow> member_value \<times> runtime" where
  "use_member w Read_Images = (Images_Value (images (rt_store w)), w)"
| "use_member w Read_Loading = (Loading_Value (loading (rt_store w)), w)"
| "use_member w Read_Error = (Error_Value (error (rt_store w)), w)"
| "use_member w Call_Fetch_Images = (Fetch_Promise (rt_next w), the (exec_event w Call_Fetch))"
| "use_member w (Call_Get_Image_By_Id i) = (Lookup_Value (get_image_by_id (rt_store w) i), w)"

section \<open>Consumer sessions\<close>

text \<open>
  A session is what a page does with the store while the network answers: it uses
  members, and pending promises settle between its uses. The result is the list of
  values the uses returned, in order.
\<close>

datatype action = Use store_member | Net event

fun run_session :: "runtime \<Rightarrow> action list \<Rightarrow> (member_value list \<times> runtime) option" where
  "run_session w [] = Some ([], w)"
| "run_session w (Use m # acts) =
     (case use_member w m of
        (v, w1) \<Rightarrow> map_option (\<lambda>(vs, w'). (v # vs, w')) (run_session w1 acts))"
| "run_session w (Net e # acts) =
     (case exec_event w e of None \<Rightarrow> None | Some w1 \<Rightarrow> run_session w1 acts)"

text \<open>A page that reads \<open>loading\<close> after each step of the runtime, and the readings it got.\<close>

fun event_action :: "event \<Rightarrow> action" where
  "event_action Call_Fetch = Use Call_Fetch_Images"
| "event_action (Fetch_Settles c fo) = Net (Fetch_Settles c fo)"
| "event_action (Body_Settles c bo) = Net (Body_Settles c bo)"

definition watch_loading :: "event list \<Rightarrow> action list" where
  "watch_loading es = concat (map (\<lambda>e. [event_action e, Use Read_Loading]) es)"

fun loading_reads :: "member_value list \<Rightarrow> bool list" where
  "loading_reads [] = []"
| "loading_reads (Loading_Value b # vs) = b # loading_reads vs"
| "loading_reads (_ # vs) = loading_reads vs"

section \<open>The pending work decreases\<close>

lemma calls_work_sum_cong:
  "\<forall>c \<in> A. m' c = m c \<Longrightarrow> (\<Sum>c \<in> A. phase_work (the (m' c))) = (\<Sum>c \<in> A. phase_work (the (m c)))"
  by (rule sum.cong) simp_all

lemma calls_work_remove:
  assumes "finite (dom m)" and "m c = Some p"
  shows "calls_work (m(c := None)) + phase_work p = calls_work m"
proof -
  have "dom (m(c := None)) = dom m - {c}" by auto
  then have "calls_work (m(c := None)) = (\<Sum>c' \<in> dom m - {c}. phase_work (the (m c')))"
    by (simp add: calls_work_def calls_work_sum_cong)
  also have "\<dots> + phase_work p = calls_work m"
    using assms by (simp add: calls_work_def sum.remove [of "dom m" c] domI)
  finally show ?thesis .
qed

lemma calls_work_insert:
  assumes "finite (dom m)" and "m c = None"
  shows "calls_work (m(c \<mapsto> p)) = calls_work m + phase_work p"
proof -
  have "dom (m(c \<mapsto> p)) = insert c (dom m)" by simp
  moreover have "c \<notin> dom m" using assms(2) by auto
  ultimately show ?thesis
    using assms(1) by (simp add: calls_work_def add.commute, intro sum.cong) auto
qed

lemma calls_work_advance:
  assumes "finite (dom m)" and "m c = Some Awaiting_Fetch"
  shows "Suc (calls_work (m(c \<mapsto> Awaiting_Body))) = calls_work m"
proof -
  have "calls_work (m(c \<mapsto> Awaiting_Body)) = calls_work ((m(c := None))(c \<mapsto> Awaiting_Body))" by simp
  also have "\<dots> = calls_work (m(c := None)) + 1"
    using assms(1) by (subst calls_work_insert) simp_all
  finally show ?thesis using calls_work_remove [OF assms] by simp
qed

lemma calls_work_le:
  "finite (dom m) \<Longrightarrow> calls_work m \<le> 2 * card (dom m)"
proof -
  assume "finite (dom m)"
  have "(\<Sum>c \<in> dom m. phase_work (the (m c))) \<le> (\<Sum>c \<in> dom m. 2)"
    by (rule sum_mono) (metis phase_work.simps phase.exhaust order_refl one_le_numeral)
  then show ?thesis by (simp add: calls_work_def mult.commute)
qed

lemma exec_settle_work:
  assumes "exec_event w e = Some w'" and "e \<noteq> Call_Fetch" and "finite (dom (rt_calls w))"
  shows "Suc (pending_work w') \<le> pending_work w \<and> finite (dom (rt_calls w'))"
proof (cases e)
  case (Fetch_Settles c fo)
  with assms(1) have c: "rt_calls w c = Some Awaiting_Fetch" by (simp split: if_splits)
  show ?thesis
  proof (cases "after_fetch fo")
    case (Inl err)
    with assms(1) Fetch_Settles c have "rt_calls w' = (rt_calls w)(c := None)" by auto
    with assms(3) show ?thesis
      using calls_work_remove [OF assms(3) c] by (simp add: pending_work_def)
  next
    case (Inr u)
    with assms(1) Fetch_Settles c have "rt_calls w' = (rt_calls w)(c \<mapsto> Awaiting_Body)" by auto
    with assms(3) show ?thesis
      using calls_work_advance [OF assms(3) c] by (simp add: pending_work_def)
  qed
next
  case (Body_Settles c bo)
  with assms(1) have c: "rt_calls w c = Some Awaiting_Body" by (simp split: if_splits)
  with assms(1) Body_Settles have "rt_calls w' = (rt_calls w)(c := None)" by auto
  with assms(3) show ?thesis
    using calls_work_remove [OF assms(3) c] by (simp add: pending_work_def)
qed (use assms(2) in simp)

lemma run_settle_work:
  "run_events w es = Some w' \<Longrightarrow> Call_Fetch \<notin> set es \<Longrightarrow> finite (dom (rt_calls w)) \<Longrightarrow>
     length es + pending_work w' \<le> pending_work w"
proof (induction w es rule: run_events.induct)
  case (1 w)
  then show ?case by simp
next
  case (2 w e es)
  then obtain w1 where step: "exec_event w e = Some w1" and rest: "run_events w1 es = Some w'"
    by (auto split: option.splits)
  from exec_settle_work [OF step] "2.prems" have "Suc (pending_work w1) \<le> pending_work w"
    and "finite (dom (rt_calls w1))" by auto
  with "2.IH" [OF step rest] "2.prems" show ?case by simp
qed

section \<open>Properties\<close>

text \<open>
  C23. Termination of the calls in flight: without new calls of \<open>fetchImages\<close>, every
  run of settlements from a reachable runtime is no longer than the pending work it
  started with, and each event lowers the pending work; the pending work is at most
  two events per call in flight. No interleaving of answers keeps a call suspended
  forever.
\<close>

theorem settlements_terminate:
  assumes "reachable w" and "Call_Fetch \<notin> set es" and "run_events w es = Some w'"
  shows "length es + pending_work w' \<le> pending_work w \<and> pending_work w \<le> 2 * card (dom (rt_calls w))"
proof -
  have fin: "finite (dom (rt_calls w))"
    using reachable_invariants [OF assms(1)] by (blast intro: calls_fresh_finite)
  show ?thesis
    using run_settle_work [OF assms(3) assms(2) fin] calls_work_le [OF fin] by (simp add: pending_work_def)
qed

theorem settlements_terminate_witness:
  "\<exists>w w'. run_events init_runtime [Call_Fetch, Call_Fetch] = Some w \<and>
     run_events w [Fetch_Settles 0 (Got_Response 200), Body_Settles 0 (Body_Parsed (JArr [])),
                   Fetch_Settles 1 (Got_Response 500)] = Some w' \<and>
     pending_work w = 4 \<and> pending_work w' = 0 \<and> 3 + pending_work w' \<le> pending_work w"
proof -
  obtain w where run: "run_events init_runtime [Call_Fetch, Call_Fetch] = Some w"
    and calls: "rt_calls w = [0 \<mapsto> Awaiting_Fetch, 1 \<mapsto> Awaiting_Fetch]"
    by (simp add: model_eval)
  have r: "reachable w" using reachable_run [OF run reachable.start] .
  obtain w' where run': "run_events w [Fetch_Settles 0 (Got_Response 200), Body_Settles 0 (Body_Parsed (JArr [])),
                   Fetch_Settles 1 (Got_Response 500)] = Some w'"
    and calls': "rt_calls w' = Map.empty"
    using calls by (simp add: model_eval)
  have "pending_work w = 4" using calls by (simp add: pending_work_def calls_work_def)
  moreover have "pending_work w' = 0" using calls' by (simp add: pending_work_def calls_work_def)
  moreover have "3 + pending_work w' \<le> pending_work w"
    using settlements_terminate [OF r _ run'] by simp
  ultimately show ?thesis using run run' by blast
qed

text \<open>
  C24. A page that reads \<open>loading\<close> after each step of one call, from any reachable
  runtime, reads \<open>true\<close> after the call starts and after each settlement but the last,
  and \<open>false\<close> after the call completes: the flag is set exactly while this call is
  suspended, whatever else is in flight.
\<close>

theorem watch_loading_call:
  assumes "reachable w"
  shows "\<exists>vs w'. run_session w (watch_loading (call_events (rt_next w) fo bo)) = Some (vs, w') \<and>
           loading_reads vs = replicate (length (call_events (rt_next w) fo bo) - 1) True @ [False]"
proof -
  have fresh: "rt_calls w (rt_next w) = None"
    using reachable_invariants [OF assms] by (blast intro: calls_fresh_next)
  show ?thesis
  proof (cases "after_fetch fo")
    case (Inl err)
    then show ?thesis by (simp add: watch_loading_def call_events_def finish_call_def)
  next
    case (Inr u)
    then show ?thesis by (simp add: watch_loading_def call_events_def finish_call_def)
  qed
qed

theorem watch_loading_call_witness:
  "\<exists>vs w'. run_session init_runtime (watch_loading (call_events 0 (Got_Response 200) (Body_Parsed (JArr [])))) = Some (vs, w') \<and>
     loading_reads vs = [True, True, False]"
  using watch_loading_call [OF reachable.start, of "Got_Response 200" "Body_Parsed (JArr [])"]
  by (simp add: model_eval call_events_def)

end
