(* ===== verification/Ts_Types.thy ===== *)
theory Ts_Types
  imports Picsum_Model Async_Runtime
begin

text \<open>
  The TypeScript types of the store and what they promise at run time. The types are
  erased by the compiler, so a type is modelled as a predicate on the JSON values the
  program handles: \<open>has_type v t\<close> is TypeScript's structural reading of a type
  (an object type lists the members it needs and tolerates others). The annotation
  \<open>ref<PicsumImage[]>([])\<close> of line 6 claims a type for the stored images; the
  annotation \<open>const data: PicsumImage[]\<close> of line 21 is an unchecked assertion about
  the parsed body. The lemmas show that the typing judgement for \<open>PicsumImage[]\<close>
  accepts exactly what the typed view decodes, and that one event keeps the declared
  type of the images when its body satisfies the assertion; the root theory uses them
  for the interleaving property C22.
\<close>

section \<open>Types and the typing judgement\<close>

datatype ts_type =
    T_String
  | T_Number
  | T_Boolean
  | T_Null
  | T_Array ts_type
  | T_Object "(js_string \<times> ts_type) list"
  | T_Union ts_type ts_type

text \<open>
  A member of an object is read as \<open>v.k\<close> reads it, the last duplicate winning; an
  absent member fails every member type (\<open>undefined\<close> is not among the types here).
  The recursion descends into array elements and member values, which are smaller
  than the value, or stays on the value with a smaller type for a union; the
  termination proof below uses exactly that lexicographic measure.
\<close>

function has_type :: "json \<Rightarrow> ts_type \<Rightarrow> bool" where
  "has_type (JStr _) T_String = True"
| "has_type (JNum _) T_Number = True"
| "has_type (JBool _) T_Boolean = True"
| "has_type JNull T_Null = True"
| "has_type (JArr xs) (T_Array t) = list_all (\<lambda>x. has_type x t) xs"
| "has_type (JObj ms) (T_Object fs) =
     list_all (\<lambda>(k, t). case map_of (rev ms) k of None \<Rightarrow> False | Some v \<Rightarrow> has_type v t) fs"
| "has_type v (T_Union t1 t2) = (has_type v t1 \<or> has_type v t2)"
| "has_type (JStr _) T_Number = False"
| "has_type (JStr _) T_Boolean = False"
| "has_type (JStr _) T_Null = False"
| "has_type (JStr _) (T_Array _) = False"
| "has_type (JStr _) (T_Object _) = False"
| "has_type (JNum _) T_String = False"
| "has_type (JNum _) T_Boolean = False"
| "has_type (JNum _) T_Null = False"
| "has_type (JNum _) (T_Array _) = False"
| "has_type (JNum _) (T_Object _) = False"
| "has_type (JBool _) T_String = False"
| "has_type (JBool _) T_Number = False"
| "has_type (JBool _) T_Null = False"
| "has_type (JBool _) (T_Array _) = False"
| "has_type (JBool _) (T_Object _) = False"
| "has_type JNull T_String = False"
| "has_type JNull T_Number = False"
| "has_type JNull T_Boolean = False"
| "has_type JNull (T_Array _) = False"
| "has_type JNull (T_Object _) = False"
| "has_type (JArr _) T_String = False"
| "has_type (JArr _) T_Number = False"
| "has_type (JArr _) T_Boolean = False"
| "has_type (JArr _) T_Null = False"
| "has_type (JArr _) (T_Object _) = False"
| "has_type (JObj _) T_String = False"
| "has_type (JObj _) T_Number = False"
| "has_type (JObj _) T_Boolean = False"
| "has_type (JObj _) T_Null = False"
| "has_type (JObj _) (T_Array _) = False"
  by pat_completeness auto

section \<open>The declared types of the store\<close>

text \<open>
  \<open>PicsumImage\<close> (declared in \<^verbatim>\<open>@/types/imgTypes\<close>, outside the sources; its
  members are those of the upstream list endpoint, as the spec describes) and the
  declared type of the \<open>images\<close> ref, \<open>PicsumImage[]\<close>, which line 21 also asserts
  of the parsed body.
\<close>

definition picsum_image_type :: ts_type where
  "picsum_image_type =
     T_Object [(''id'', T_String), (''author'', T_String), (''width'', T_Number), (''height'', T_Number),
               (''url'', T_String), (''download_url'', T_String)]"

definition images_type :: ts_type where
  "images_type = T_Array picsum_image_type"

text \<open>An event keeps the assertion of line 21 when the body it settles has the asserted type.\<close>

fun body_conforms :: "event \<Rightarrow> bool" where
  "body_conforms (Body_Settles c (Body_Parsed d)) = has_type d images_type"
| "body_conforms (Body_Settles c (Body_Failure err)) = True"
| "body_conforms (Fetch_Settles c fo) = True"
| "body_conforms Call_Fetch = True"

section \<open>Termination of the typing judgement\<close>

lemma member_size_less:
  "map_of (rev ms) k = Some v \<Longrightarrow> size v < Suc (size_list (size_prod (\<lambda>_. 0) size) ms)"
  by (rule le_imp_less_Suc, rule size_list_estimation' [of "(k, v)"]) (auto dest: map_of_SomeD)

lemma element_size_less: "x \<in> set xs \<Longrightarrow> size x < Suc (size_list size xs)"
  by (induction xs) auto

termination has_type
  by (relation "measures [\<lambda>(v, t). size v, \<lambda>(v, t). size t]")
    (auto dest: member_size_less element_size_less)

section \<open>Typing and decoding\<close>

lemma has_type_String: "has_type v T_String \<longleftrightarrow> as_str v \<noteq> None"
  by (cases v) simp_all

lemma has_type_Number: "has_type v T_Number \<longleftrightarrow> as_num v \<noteq> None"
  by (cases v) simp_all

lemma has_type_picsum_image: "has_type v picsum_image_type \<longleftrightarrow> decode_image v \<noteq> None"
proof (cases v)
  case (JObj ms)
  then show ?thesis
    by (auto simp: picsum_image_type_def has_type_String has_type_Number field_def member_def
        split: option.splits bind_splits)
qed (simp_all add: picsum_image_type_def)

lemma those_map_not_None: "(\<exists>ys. those (map f xs) = Some ys) \<longleftrightarrow> list_all (\<lambda>x. \<exists>y. f x = Some y) xs"
  by (induction xs) (auto split: option.splits)

lemma has_type_images: "has_type v images_type \<longleftrightarrow> decode_images v \<noteq> None"
  by (cases v) (simp_all add: images_type_def has_type_picsum_image those_map_not_None)

lemma abs_of_images_type: "abs_of s \<noteq> None \<longleftrightarrow> has_type (images s) images_type"
  by (simp add: abs_of_def has_type_images)

section \<open>The declared type of the images under interleaving\<close>

lemma exec_images_typed:
  assumes "exec_event w e = Some w'" and "body_conforms e" and "has_type (images (rt_store w)) images_type"
  shows "has_type (images (rt_store w')) images_type"
proof -
  have "images (rt_store w') = last_body (images (rt_store w)) [e]"
    using assms(1) by (rule exec_images)
  with assms(2,3) show ?thesis
    by (cases "(images (rt_store w), [e])" rule: last_body.cases) auto
qed

end
