(* ===== verification/Reactivity.thy ===== *)
theory Reactivity
  imports Async_Runtime
begin

text \<open>
  The three fields are Vue refs (lines 6 to 8). Assigning \<open>r.value = v\<close> stores
  \<open>v\<close> and notifies the ref's subscribers only when \<open>v\<close> is not \<open>Object.is\<close> the
  value held (Vue's \<open>hasChanged\<close>). A subscriber with \<open>flush: 'sync'\<close> runs at the
  assignment and sees the store as it is then, in the middle of a continuation; one
  with the default flush runs after the continuation, when the store is the one
  \<^const>\<open>store_step\<close> gives. This theory models each continuation of the handler as
  the list of assignments it performs, in source order, and the notifications they
  emit with the store each subscriber sees.
\<close>

section \<open>Assignments to the refs\<close>

datatype field = F_Images | F_Loading | F_Error

datatype ref_write =
    W_Images json
  | W_Loading bool
  | W_Error "js_string option"

fun write_field :: "ref_write \<Rightarrow> field" where
  "write_field (W_Images _) = F_Images"
| "write_field (W_Loading _) = F_Loading"
| "write_field (W_Error _) = F_Error"

fun apply_write :: "store \<Rightarrow> ref_write \<Rightarrow> store" where
  "apply_write s (W_Images d) = s\<lparr>images := d\<rparr>"
| "apply_write s (W_Loading b) = s\<lparr>loading := b\<rparr>"
| "apply_write s (W_Error m) = s\<lparr>error := m\<rparr>"

text \<open>
  \<open>Object.is(old, v)\<close> for the body assigned at line 22: \<open>response.json()\<close> has
  just created it, so an array or object is a fresh object, never the one held;
  \<open>null\<close>, booleans, strings and (integral) numbers compare by value.
\<close>

fun json_same :: "json \<Rightarrow> json \<Rightarrow> bool" where
  "json_same old (JArr _) = False"
| "json_same old (JObj _) = False"
| "json_same old JNull = (old = JNull)"
| "json_same old (JBool b) = (old = JBool b)"
| "json_same old (JNum n) = (old = JNum n)"
| "json_same old (JStr t) = (old = JStr t)"

fun ref_changed :: "store \<Rightarrow> ref_write \<Rightarrow> bool" where
  "ref_changed s (W_Images d) = (\<not> json_same (images s) d)"
| "ref_changed s (W_Loading b) = (loading s \<noteq> b)"
| "ref_changed s (W_Error m) = (error s \<noteq> m)"

text \<open>
  Running assignments in order: the final store, and for each assignment that
  notifies, the field and the store a synchronous subscriber sees.
\<close>

fun run_writes :: "store \<Rightarrow> ref_write list \<Rightarrow> store \<times> (field \<times> store) list" where
  "run_writes s [] = (s, [])"
| "run_writes s (w # ws) =
     (let s1 = apply_write s w; (s2, ns) = run_writes s1 ws
      in (s2, (if ref_changed s w then [(write_field w, s1)] else []) @ ns))"

definition notified :: "store \<Rightarrow> ref_write list \<Rightarrow> field set" where
  "notified s ws = fst ` set (snd (run_writes s ws))"

section \<open>The assignments of each continuation\<close>

text \<open>
  Lines 11 and 12 when a call starts; line 22 or line 24 and then line 27 when it
  finishes (the \<open>try\<close> or \<open>catch\<close> block runs before \<open>finally\<close>).
\<close>

definition start_writes :: "ref_write list" where
  "start_writes = [W_Loading True, W_Error None]"

fun result_writes :: "thrown + json \<Rightarrow> ref_write list" where
  "result_writes (Inr data) = [W_Images data, W_Loading False]"
| "result_writes (Inl err) = [W_Error (Some (error_text err)), W_Loading False]"

fun event_writes :: "event \<Rightarrow> ref_write list" where
  "event_writes Call_Fetch = start_writes"
| "event_writes (Fetch_Settles c fo) = (case after_fetch fo of Inl err \<Rightarrow> result_writes (Inl err) | Inr _ \<Rightarrow> [])"
| "event_writes (Body_Settles c bo) = result_writes (after_body bo)"

text \<open>
  Proofs about a finished continuation go through \<open>result_writes_run\<close> below, which
  states the whole run of \<^const>\<open>result_writes\<close>; its equations stay folded.
\<close>

declare result_writes.simps [simp del]

section \<open>Running assignments\<close>

lemma run_writes_Cons [simp]:
  "fst (run_writes s (w # ws)) = fst (run_writes (apply_write s w) ws)"
  "snd (run_writes s (w # ws)) =
     (if ref_changed s w then [(write_field w, apply_write s w)] else []) @ snd (run_writes (apply_write s w) ws)"
  by (simp_all add: Let_def case_prod_unfold)

lemma start_writes_run:
  "run_writes s start_writes =
     (fetch_start s,
      (if loading s then [] else [(F_Loading, s\<lparr>loading := True\<rparr>)]) @
      (if error s = None then [] else [(F_Error, fetch_start s)]))"
  by (simp add: start_writes_def fetch_start_def Let_def)

lemma result_writes_run:
  "run_writes s (result_writes r) =
     (settle s r,
      (case r of
         Inr d \<Rightarrow> (if json_same (images s) d then [] else [(F_Images, s\<lparr>images := d\<rparr>)])
       | Inl err \<Rightarrow> (if error s = Some (error_text err) then [] else [(F_Error, s\<lparr>error := Some (error_text err)\<rparr>)])) @
      (if loading s then [(F_Loading, settle s r)] else []))"
  by (cases r) (simp_all add: result_writes.simps settle_def Let_def)

section \<open>Properties\<close>

text \<open>
  C25. Subscribers of \<open>loading\<close> and of \<open>error\<close> are notified by an event exactly when
  the event changes that field: a second call started while one is in flight does
  not notify \<open>loading\<close>, and a call that starts with no error shown does not notify
  \<open>error\<close>.
\<close>

theorem notified_iff_changed:
  "(F_Loading \<in> notified s (event_writes e) \<longleftrightarrow> loading (store_step s e) \<noteq> loading s) \<and>
   (F_Error \<in> notified s (event_writes e) \<longleftrightarrow> error (store_step s e) \<noteq> error s)"
  by (cases e)
    (auto simp: notified_def start_writes_run result_writes_run fetch_start_def settle_def
      split: sum.splits if_splits)

text \<open>
  C26. Every parsed array body notifies the subscribers of \<open>images\<close>, even one equal
  to the collection shown (a repeated fetch of an unchanged list, after which the
  store is as before), since it is a new object; a synchronous subscriber sees the
  new collection while \<open>loading\<close> still has its old value.
\<close>

theorem parsed_array_notifies_images:
  assumes "after_body bo = Inr (JArr xs)"
  shows "(F_Images, s\<lparr>images := JArr xs\<rparr>) \<in> set (snd (run_writes s (event_writes (Body_Settles c bo))))"
  using assms by (simp add: result_writes_run)

theorem parsed_array_notifies_images_witness:
  "after_body (Body_Parsed (JArr [])) = Inr (JArr []) \<and>
   images init_store = JArr [] \<and>
   (F_Images, init_store\<lparr>loading := True\<rparr>)
     \<in> set (snd (run_writes (init_store\<lparr>loading := True\<rparr>) (event_writes (Body_Settles 0 (Body_Parsed (JArr []))))))"
proof -
  have a: "after_body (Body_Parsed (JArr [])) = Inr (JArr [])" by simp
  have i: "images init_store = JArr []" by (simp add: model_eval)
  have "(F_Images, (init_store\<lparr>loading := True\<rparr>)\<lparr>images := JArr []\<rparr>)
     \<in> set (snd (run_writes (init_store\<lparr>loading := True\<rparr>) (event_writes (Body_Settles 0 (Body_Parsed (JArr []))))))"
    by (rule parsed_array_notifies_images [OF a])
  with a i show ?thesis by (simp add: model_eval)
qed

text \<open>
  C27. \<open>finally\<close> runs after \<open>try\<close> and \<open>catch\<close>: when a subscriber of \<open>loading\<close>
  is notified that it turned false, the store it sees is already the final store of
  the continuation, with the call's collection or error in place.
\<close>

theorem loading_cleared_sees_result:
  assumes "(F_Loading, s') \<in> set (snd (run_writes s (event_writes e)))" and "\<not> loading s'"
  shows "s' = store_step s e"
  using assms
  by (cases e)
    (auto simp: start_writes_run result_writes_run fetch_start_def settle_def
      split: sum.splits if_splits)

theorem loading_cleared_sees_result_witness:
  "(F_Loading, init_store\<lparr>error := Some (http_error_message 500)\<rparr>)
     \<in> set (snd (run_writes (init_store\<lparr>loading := True\<rparr>) (event_writes (Fetch_Settles 0 (Got_Response 500))))) \<and>
   \<not> loading (init_store\<lparr>error := Some (http_error_message 500)\<rparr>) \<and>
   init_store\<lparr>error := Some (http_error_message 500)\<rparr> =
     store_step (init_store\<lparr>loading := True\<rparr>) (Fetch_Settles 0 (Got_Response 500))"
proof -
  have m: "(F_Loading, init_store\<lparr>error := Some (http_error_message 500)\<rparr>)
     \<in> set (snd (run_writes (init_store\<lparr>loading := True\<rparr>) (event_writes (Fetch_Settles 0 (Got_Response 500)))))"
    by (simp add: model_eval result_writes_run settle_def)
  have l: "\<not> loading (init_store\<lparr>error := Some (http_error_message 500)\<rparr>)" by (simp add: model_eval)
  show ?thesis using loading_cleared_sees_result [OF m l] m l by simp
qed

end
