(* ===== verification/Spec2Isabelle.thy ===== *)
theory Spec2Isabelle
  imports Async_Runtime Picsum_Model Store_Api Ts_Types Reactivity
begin

text \<open>
  \<^bold>\<open>A verification library for the image store of carousel-vue.\<close>

  \<^bold>\<open>The program.\<close> The repository's logic is one Pinia store,
  \<^verbatim>\<open>src/src/store/images.ts\<close> (\<open>useImagesStore\<close>, 42 lines). It keeps three
  reactive fields, \<open>images\<close>, \<open>loading\<close> and \<open>error\<close>, and offers two operations.
  The asynchronous handler \<open>fetchImages\<close> sets \<open>loading\<close>, clears \<open>error\<close>, awaits
  \<open>fetch\<close> of a fixed URL, throws on a status that is not ok, awaits
  \<open>response.json()\<close> and stores the result; its \<open>catch\<close> records the exception's
  text and logs it with \<open>console.error\<close>, its \<open>finally\<close> clears \<open>loading\<close>. The
  synchronous lookup \<open>getImageById\<close> runs \<open>images.value.find\<close> with
  \<open>image.id === id\<close>. The two interact only through the \<open>images\<close> field; calls of
  the handler interact through all three fields, since nothing stops a call from
  starting while another is suspended.

  Pages obtain the store with \<open>useImagesStore()\<close>, which Pinia resolves to one
  shared instance, and use the members it returns: they read the three fields and
  call the two functions, while the network settles the promises \<open>fetchImages\<close>
  awaits.

  \<^bold>\<open>The theories, in import order.\<close>
  \<^item> \<^verbatim>\<open>Prelude\<close>: the type names \<open>js_string\<close> and \<open>u16\<close>, the rule collections
    \<open>model_eval\<close> (definitions unfolded when a witness evaluates the model) and
    \<open>inv_step\<close> (one-step preservation lemmas), and generic facts on \<^const>\<open>find\<close>
    and \<^const>\<open>list_all2\<close> that the lookup and refinement proofs share.
  \<^item> \<^verbatim>\<open>Js_Value\<close>: the platform semantics the code relies on: JSON values
    (\<open>json\<close>, what \<open>response.json()\<close> yields; objects keep duplicate members and
    the last one wins), thrown values (\<open>thrown\<close>, with \<open>is_error_instance\<close> for
    \<open>instanceof Error\<close>), the property read \<open>get_id\<close> for \<open>image.id\<close>, strict
    equality with a string (\<open>strict_eq_str\<close>) and \<open>Array.prototype.find\<close> with a
    callback that may throw (\<open>js_find\<close>), with its equivalence to
    \<^const>\<open>find\<close> when the callback cannot throw.
  \<^item> \<^verbatim>\<open>Http_Message\<close>: \<open>response_ok\<close> on the WebIDL \<open>unsigned short\<close> status,
    a 16-bit word; \<open>decimal\<close>, the digits \<open>${response.status}\<close> produces; the
    message of line 18 (\<open>http_error_message\<close>); and a parser back to the status,
    the inverse for the round-trip lemma.
  \<^item> \<^verbatim>\<open>Image_Store\<close>: the record \<open>store\<close> of lines 6 to 8 and \<open>init_store\<close>;
    the handler cut at its awaits: \<open>fetch_start\<close> (lines 11 and 12),
    \<open>after_fetch\<close> (15 to 19), \<open>after_body\<close> (21), \<open>settle\<close> and
    \<open>settle_log\<close> (22 to 28), \<open>error_text\<close> (24); \<open>try_block\<close> and
    \<open>fetch_images\<close>, the handler run to completion without interleaving; and
    \<open>get_image_by_id\<close> (31 to 33) with \<open>image_has_id\<close> and \<open>images_find\<close>.
    The network's answers are the parameters \<open>fetch_outcome\<close> and
    \<open>body_outcome\<close>, so every lemma holds for every answer.
  \<^item> \<^verbatim>\<open>Async_Runtime\<close>: a runtime holds the store, the console and the calls in
    flight with the await each is suspended at; \<open>exec_event\<close> runs one event (a
    call, or a pending promise settling with an answer) as the JavaScript event loop
    runs one continuation; \<open>reachable\<close> is the inductive set of runtimes the store
    can reach from \<open>init_runtime\<close> under any interleaving.
  \<^item> \<^verbatim>\<open>Picsum_Model\<close>: the typed view the spec describes: \<open>picsum_image\<close> records
    (the type \<open>PicsumImage\<close> lives in \<^verbatim>\<open>@/types/imgTypes\<close>, not among the
    sources, and is modelled from the spec), a decoder from JSON that serves as
    abstraction function, the abstract store with \<open>abs_fetch\<close> and \<open>abs_get\<close>.
  \<^item> \<^verbatim>\<open>Store_Api\<close>: the store as its consumers see it. \<open>use_member\<close> is the
    object of lines 35 to 41 (\<open>store_member\<close> names its members,
    \<open>member_value\<close> what a use returns); \<open>run_session\<close> interleaves uses of the
    members with network events; and \<open>pending_work\<close>, the events the calls in
    flight still need, the measure of the termination lemma.
  \<^item> \<^verbatim>\<open>Ts_Types\<close>: TypeScript types as a structural typing judgement
    \<open>has_type\<close> on JSON values (a \<^theory_text>\<open>function\<close> with a lexicographic
    termination proof), the declared type \<open>images_type\<close> of the ref (line 6), the
    assertion of line 21 as \<open>body_conforms\<close>; the judgement agrees with the typed
    view's decoder, which the interleaving property C22 uses.
  \<^item> \<^verbatim>\<open>Reactivity\<close>: the refs as Vue implements them. Each continuation of the
    handler is the list of assignments it makes in source order (\<open>start_writes\<close>
    for lines 11 and 12, \<open>result_writes\<close> for line 22 or 24 and then 27,
    \<open>event_writes\<close> per event); \<open>ref_changed\<close> is the setter's
    \<open>Object.is\<close> check (\<open>json_same\<close>: a freshly parsed array is a new object);
    \<open>run_writes\<close> applies assignments and lists the notifications with the store a
    synchronous subscriber sees.
  \<^item> this theory: the properties that span components.

  \<^bold>\<open>What is proved.\<close>
  \<^item> The handler on every branch: success (C1), any failure (C2), a status that is
    not ok (C3), a thrown value that is not an \<open>Error\<close> (C4), an \<open>Error\<close> with an
    empty message (C5); idempotence (C6); the result depends on the old store only
    through \<open>images\<close> (C19).
  \<^item> The lookup: equivalence with \<^const>\<open>find\<close> on arrays without \<open>null\<close> (C7),
    and the \<open>TypeError\<close>s it throws on a \<open>null\<close> element (C8) or a stored value
    that is not an array (C9).
  \<^item> Interleaved calls, by rule induction over \<open>reachable\<close>: \<open>loading\<close> only
    while a call is in flight (C10); every error shown was logged last (C11);
    a call sets \<open>loading\<close> before it suspends (C12); any completing call clears
    \<open>loading\<close> and leaves every other call in flight, so overlapping calls show
    \<open>loading = false\<close> with a request pending (C13); the images are the last
    parsed body in completion order (C14); the store after any run is a fold of
    per-event updates that ignores which call an event belongs to, so an older call
    that fails late shows its error over newer data (C20); the console is
    append-only with one line per failed call (C21).
  \<^item> The typed view: both operations refine the abstract store of the spec (C15,
    C16); under any interleaving, typed answers keep the store typed and the lookup
    never throws (C22).
  \<^item> Messages: the status reads back from the stored error (C17); the message is 21
    to 25 characters long (C18).
  \<^item> The consumers' view: without new calls the calls in flight finish within their
    pending work, at most two events each (C23, termination); a page reading
    \<open>loading\<close> after each step of a call sees it set until the call completes (C24).
  \<^item> Notifications: \<open>loading\<close> and \<open>error\<close> subscribers are notified exactly when the
    field changes (C25); every parsed array notifies \<open>images\<close> subscribers, even an
    unchanged list, and a synchronous one sees it while \<open>loading\<close> is still set
    (C26); when \<open>loading\<close> turns false the subscriber already sees the call's result
    (C27).

  \<^bold>\<open>Bounds, fuel, termination.\<close> The status is a 16-bit word, so its decimal text
  has one to five digits; that is the only bound the code depends on. No definition
  needs fuel: \<open>decimal\<close> recurses on \<open>n div 10\<close> and \<open>js_find\<close>, \<open>run_events\<close>,
  \<open>run_session\<close> and \<open>run_writes\<close> on lists, all
  accepted by \<^theory_text>\<open>fun\<close>; \<open>has_type\<close> descends into member values found by
  \<open>map_of\<close>, which \<^theory_text>\<open>fun\<close> cannot see are smaller, so it is a
  \<^theory_text>\<open>function\<close> whose termination is proved with the measure (size of the value,
  size of the type). The handler has no loop; what could run forever is the event
  loop's work on calls in flight, and C23 bounds it by \<open>pending_work\<close> (two events
  for a call at \<open>await fetch\<close>, one at \<open>await response.json()\<close>), which every
  settlement lowers.

  \<^bold>\<open>Not modelled.\<close> Vue's scheduler: subscribers with the default flush and
  renders run after a continuation, and the model gives them only its final store
  (\<open>store_step\<close>), not the order in which they run; Pinia itself: the registry
  that makes \<open>useImagesStore()\<close> return one shared instance is library code the
  repository only calls, so the model has one runtime from \<open>init_runtime\<close> (lines 6
  to 8), and the store API Pinia adds (\<open>$patch\<close>, \<open>$subscribe\<close>,
  \<open>$onAction\<close>, consumers assigning the exposed refs directly) is never used; the
  request of line 15 (a \<open>GET\<close> of the fixed URL on every call, which no property
  depends on) and the network itself (the responses and their timing are
  parameters); the JSON parser
  (its result is a parameter); numbers in JSON are integers, not IEEE doubles;
  strings are sequences of ASCII characters, not UTF-16 code units; how
  \<open>console.error\<close> prints: the log keeps the two arguments of line 25, which the
  Console standard hands unchanged (the label has no format specifiers) to a printer
  whose rendering is left to the host; the imports of lines 1 to 3, which carry no
  behaviour.

  \<^bold>\<open>Further work.\<close> IEEE numbers and UTF-16 strings in \<open>json\<close>, where an
  identifier that is a number or a non-ASCII string would be compared; the status
  range the Fetch standard allows for network responses, which narrows
  \<open>Got_Response\<close>.
\<close>

section \<open>Typed answers under interleaving\<close>

text \<open>An event is typed unless it settles a body that parses but does not decode.\<close>

fun typed_event :: "event \<Rightarrow> bool" where
  "typed_event (Body_Settles c (Body_Parsed d)) = (decode_images d \<noteq> None)"
| "typed_event _ = True"

section \<open>Properties across components\<close>

lemma typed_event_conforms: "typed_event e = body_conforms e"
  by (cases e rule: typed_event.cases) (simp_all add: has_type_images)

lemma exec_keeps_typed:
  assumes "exec_event w e = Some w'" and "typed_event e" and "abs_of (rt_store w) \<noteq> None"
  shows "abs_of (rt_store w') \<noteq> None"
  using exec_images_typed [OF assms(1)] assms(2,3) unfolding abs_of_images_type typed_event_conforms by blast

text \<open>
  C17. The status a consumer reads back from the store's \<open>error\<close> after a response
  that is not ok is the status the server sent: the message of line 18 embeds it in a
  form that parses back to the same 16-bit value.
\<close>

theorem http_error_status_roundtrip:
  assumes "\<not> response_ok st"
  shows "\<exists>m. error (fst (fetch_images s (Got_Response st) bo)) = Some m \<and> status_of_message m = Some st"
proof -
  from assms have "try_block (Got_Response st) bo = Inl (Exn_Error ''Error'' (http_error_message st))"
    by simp
  then have "error (fst (fetch_images s (Got_Response st) bo)) = Some (http_error_message st)"
    by (simp add: fetch_images_log_Inl)
  then show ?thesis by (simp add: status_of_http_error_message)
qed

theorem http_error_status_roundtrip_witness:
  "\<not> response_ok 404 \<and>
   (\<exists>m. error (fst (fetch_images init_store (Got_Response 404) (Body_Parsed JNull))) = Some m \<and>
        status_of_message m = Some 404)"
proof -
  have ok: "\<not> response_ok 404" by (simp add: model_eval)
  show ?thesis using http_error_status_roundtrip [OF ok, of init_store "Body_Parsed JNull"] ok by simp
qed

text \<open>
  C22. Under any interleaving of calls, answers that are all typed keep a typed store
  typed, so \<open>getImageById\<close> never throws in any state the run passes through to its
  end.
\<close>

theorem run_typed_events_keep_typed:
  assumes "run_events w es = Some w'" and "abs_of (rt_store w) \<noteq> None" and "list_all typed_event es"
  shows "abs_of (rt_store w') \<noteq> None \<and> (\<exists>j. get_image_by_id (rt_store w') i = Inr j)"
proof -
  have "abs_of (rt_store w') \<noteq> None"
    using assms
  proof (induction w es rule: run_events.induct)
    case (1 w)
    then show ?case by simp
  next
    case (2 w e es)
    then obtain w1 where step: "exec_event w e = Some w1" and rest: "run_events w1 es = Some w'"
      by (auto split: option.splits)
    from exec_keeps_typed [OF step] "2.prems"(2,3) have "abs_of (rt_store w1) \<noteq> None" by simp
    with "2.IH" [OF step rest] "2.prems"(3) show ?case by simp
  qed
  moreover from this obtain a where "abs_of (rt_store w') = Some a" by auto
  then have "\<exists>j. get_image_by_id (rt_store w') i = Inr j"
    using get_image_by_id_abs_get [of "rt_store w'" a i] by blast
  ultimately show ?thesis by blast
qed

theorem run_typed_events_keep_typed_witness:
  "\<exists>w'. run_events init_runtime
          [Call_Fetch, Call_Fetch, Fetch_Settles 1 (Got_Response 200), Fetch_Settles 0 (Got_Response 200),
           Body_Settles 0 (Body_Parsed (JArr [])), Body_Settles 1 (Body_Failure (Exn_Value JNull))] = Some w' \<and>
        abs_of (rt_store init_runtime) \<noteq> None \<and>
        list_all typed_event
          [Call_Fetch, Call_Fetch, Fetch_Settles 1 (Got_Response 200), Fetch_Settles 0 (Got_Response 200),
           Body_Settles 0 (Body_Parsed (JArr [])), Body_Settles 1 (Body_Failure (Exn_Value JNull))] \<and>
        abs_of (rt_store w') \<noteq> None \<and> (\<exists>j. get_image_by_id (rt_store w') ''0'' = Inr j)"
proof -
  let ?es = "[Call_Fetch, Call_Fetch, Fetch_Settles 1 (Got_Response 200), Fetch_Settles 0 (Got_Response 200),
           Body_Settles 0 (Body_Parsed (JArr [])), Body_Settles 1 (Body_Failure (Exn_Value JNull))]"
  obtain w' where run: "run_events init_runtime ?es = Some w'" by (simp add: model_eval)
  have t: "abs_of (rt_store init_runtime) \<noteq> None" by (simp add: model_eval abs_of_def)
  have l: "list_all typed_event ?es" by simp
  show ?thesis using run_typed_events_keep_typed [OF run t l, of "''0''"] run t l by blast
qed

end
